theory Spec2Isabelle
  imports Complex_Main "HOL-Library.Sublist" "HOL-Library.Multiset"
begin

section \<open>Strings\<close>

text \<open>
  Go strings are modelled as \<^typ>\<open>string\<close> (lists of bytes). \<open>strings.Contains\<close> is
  substring containment; \<open>strings.ToLower\<close> is modelled on ASCII letters, which is all a
  Kubernetes label value or the keyword tables can hold.
\<close>

primrec Contains :: "string \<Rightarrow> string \<Rightarrow> bool" where
  "Contains [] sub = (sub = [])"
| "Contains (c # cs) sub = (prefix sub (c # cs) \<or> Contains cs sub)"

definition lower_char :: "char \<Rightarrow> char" where
  "lower_char c =
     (case map_of (zip ''ABCDEFGHIJKLMNOPQRSTUVWXYZ'' ''abcdefghijklmnopqrstuvwxyz'') c of
        Some l \<Rightarrow> l
      | None \<Rightarrow> c)"

definition ToLower :: "string \<Rightarrow> string" where
  "ToLower s = map lower_char s"

section \<open>Layers and layered issues (pkg/models)\<close>

type_synonym Layer = string

definition LayerInfrastructure :: Layer where
  "LayerInfrastructure = ''infrastructure''"

definition LayerPlatform :: Layer where
  "LayerPlatform = ''platform''"

definition LayerApplication :: Layer where
  "LayerApplication = ''application''"

definition Priority :: "Layer \<Rightarrow> int" where
  "Priority l =
     (if l = LayerInfrastructure then 0
      else if l = LayerPlatform then 1
      else if l = LayerApplication then 2
      else 99)"

record Resource =
  Kind :: string
  Name :: string
  Namespace :: string
  Issue :: string

record LayerPrediction =
  Affected :: bool
  Probability :: real
  Evidence :: "string list"
  IsRootCause :: bool

record MLLayerPredictions =
  Infrastructure :: "LayerPrediction option"
  Platform :: "LayerPrediction option"
  Application :: "LayerPrediction option"
  RootCauseSuggestion :: Layer
  Confidence :: real
  AnalysisType :: string

text \<open>
  \<open>LayeredIssue\<close>. The wall-clock field \<open>DetectedAt\<close> is left out; the two Go maps are
  partial functions, a missing key reading as the zero value.
\<close>

record LayeredIssue =
  ID :: string
  Description :: string
  AffectedLayers :: "Layer list"
  RootCauseLayer :: Layer
  ImpactedResources :: "Layer \<rightharpoonup> Resource list"
  Severity :: string
  MLPredictions :: "MLLayerPredictions option"
  LayerConfidence :: "Layer \<rightharpoonup> real"
  DetectionMethod :: string
  HistoricalPattern :: string

definition NewLayeredIssue :: "string \<Rightarrow> string \<Rightarrow> Layer \<Rightarrow> LayeredIssue" where
  "NewLayeredIssue i description rootCauseLayer =
     \<lparr> ID = i,
       Description = description,
       AffectedLayers = [rootCauseLayer],
       RootCauseLayer = rootCauseLayer,
       ImpactedResources = Map.empty,
       Severity = ''medium'',
       MLPredictions = None,
       LayerConfidence = Map.empty,
       DetectionMethod = ''keyword'',
       HistoricalPattern = [] \<rparr>"

definition IsMultiLayer :: "LayeredIssue \<Rightarrow> bool" where
  "IsMultiLayer li = (length (AffectedLayers li) > 1)"

definition AddAffectedLayer :: "LayeredIssue \<Rightarrow> Layer \<Rightarrow> LayeredIssue" where
  "AddAffectedLayer li layer =
     (if list_ex (\<lambda>l. l = layer) (AffectedLayers li) then li
      else li\<lparr>AffectedLayers := AffectedLayers li @ [layer]\<rparr>)"

definition GetResourcesForLayer :: "LayeredIssue \<Rightarrow> Layer \<Rightarrow> Resource list" where
  "GetResourcesForLayer li layer =
     (case ImpactedResources li layer of None \<Rightarrow> [] | Some rs \<Rightarrow> rs)"

definition AddImpactedResource :: "LayeredIssue \<Rightarrow> Layer \<Rightarrow> Resource \<Rightarrow> LayeredIssue" where
  "AddImpactedResource li layer resource =
     li\<lparr>ImpactedResources := (ImpactedResources li)(layer \<mapsto> GetResourcesForLayer li layer @ [resource])\<rparr>"

text \<open>
  \<open>GetLayersByPriority\<close>: a copy of the affected layers, sorted in place by the two nested
  index loops of the source (exchange whenever the earlier entry has the larger priority).
\<close>

definition swap_if_greater :: "nat \<Rightarrow> nat \<Rightarrow> Layer list \<Rightarrow> Layer list" where
  "swap_if_greater i j layers =
     (if Priority (layers ! i) > Priority (layers ! j)
      then layers[i := layers ! j, j := layers ! i] else layers)"

definition sort_inner :: "nat \<Rightarrow> Layer list \<Rightarrow> Layer list" where
  "sort_inner i layers = fold (swap_if_greater i) [i + 1 ..< length layers] layers"

definition GetLayersByPriority :: "LayeredIssue \<Rightarrow> Layer list" where
  "GetLayersByPriority li =
     fold sort_inner [0 ..< length (AffectedLayers li)] (AffectedLayers li)"

section \<open>Keyword layer detector (internal/coordination)\<close>

definition infrastructure_keywords :: "string list" where
  "infrastructure_keywords =
     [''node'', ''machineconfig'', ''mco'', ''kubelet'',
      ''memory pressure'', ''disk pressure'', ''pid pressure'',
      ''os'', ''kernel'', ''systemd'', ''coreos'',
      ''notready'', ''networkunavailable'']"

definition platform_keywords :: "string list" where
  "platform_keywords =
     [''operator'', ''sdn'', ''networking'', ''ovn'',
      ''storage'', ''csi'', ''ingress'', ''router'',
      ''api server'', ''controller manager'', ''scheduler'',
      ''clusteroperator'', ''degraded'', ''progressing'']"

definition application_keywords :: "string list" where
  "application_keywords =
     [''pod'', ''deployment'', ''replicaset'', ''statefulset'',
      ''crashloop'', ''imagepull'', ''container'', ''oom'',
      ''application'', ''service'', ''endpoint'',
      ''crashloopbackoff'', ''imagepullbackoff'']"

definition hasInfrastructureIssues :: "string \<Rightarrow> Resource list \<Rightarrow> bool" where
  "hasInfrastructureIssues description resources =
     (list_ex (Contains (ToLower description)) infrastructure_keywords
      \<or> list_ex (\<lambda>r. Kind r = ''Node'' \<or> Kind r = ''MachineConfig''
                      \<or> Kind r = ''MachineConfigPool'') resources)"

definition hasPlatformIssues :: "string \<Rightarrow> Resource list \<Rightarrow> bool" where
  "hasPlatformIssues description resources =
     (list_ex (Contains (ToLower description)) platform_keywords
      \<or> list_ex (\<lambda>r. Kind r = ''ClusterOperator'' \<or> Contains (Kind r) ''Operator''
                      \<or> Kind r = ''NetworkPolicy'') resources)"

definition hasApplicationIssues :: "string \<Rightarrow> Resource list \<Rightarrow> bool" where
  "hasApplicationIssues description resources =
     (list_ex (Contains (ToLower description)) application_keywords
      \<or> list_ex (\<lambda>r. Kind r = ''Pod'' \<or> Kind r = ''Deployment'' \<or> Kind r = ''StatefulSet''
                      \<or> Kind r = ''DaemonSet'' \<or> Kind r = ''ReplicaSet'') resources)"

definition determineInitialLayer :: "string \<Rightarrow> Resource list \<Rightarrow> Layer" where
  "determineInitialLayer description resources =
     (if hasInfrastructureIssues description resources then LayerInfrastructure
      else if hasPlatformIssues description resources then LayerPlatform
      else LayerApplication)"

definition determineRootCause :: "Layer list \<Rightarrow> Layer" where
  "determineRootCause affectedLayers =
     (if affectedLayers = [] then LayerApplication
      else if list_ex (\<lambda>l. l = LayerInfrastructure) affectedLayers then LayerInfrastructure
      else if list_ex (\<lambda>l. l = LayerPlatform) affectedLayers then LayerPlatform
      else LayerApplication)"

definition resourceToLayer :: "Resource \<Rightarrow> Layer" where
  "resourceToLayer resource =
     (if Kind resource \<in> set [''Node'', ''MachineConfig'', ''MachineConfigPool'']
        then LayerInfrastructure
      else if Kind resource \<in> set [''ClusterOperator'', ''NetworkPolicy''] then LayerPlatform
      else if Contains (Kind resource) ''Operator'' then LayerPlatform
      else LayerApplication)"

definition groupAndAddResources :: "LayeredIssue \<Rightarrow> Resource list \<Rightarrow> LayeredIssue" where
  "groupAndAddResources layeredIssue resources =
     fold (\<lambda>resource li. AddImpactedResource li (resourceToLayer resource) resource)
       resources layeredIssue"

definition DetectLayers :: "string \<Rightarrow> string \<Rightarrow> Resource list \<Rightarrow> LayeredIssue" where
  "DetectLayers issueID issueDescription resources =
     (let rootCauseLayer = determineInitialLayer issueDescription resources;
          li0 = NewLayeredIssue issueID issueDescription rootCauseLayer;
          li1 = (if hasInfrastructureIssues issueDescription resources
                 then AddAffectedLayer li0 LayerInfrastructure else li0);
          li2 = (if hasPlatformIssues issueDescription resources
                 then AddAffectedLayer li1 LayerPlatform else li1);
          li3 = (if hasApplicationIssues issueDescription resources
                 then AddAffectedLayer li2 LayerApplication else li2);
          li4 = li3\<lparr>RootCauseLayer := determineRootCause (AffectedLayers li3)\<rparr>
      in groupAndAddResources li4 resources)"

section \<open>Machine-learning-enhanced layer detector (internal/coordination)\<close>

text \<open>
  Probabilities and confidences are \<open>float64\<close> in the source. They are only compared and
  maximised, never computed with, so they are modelled as \<^typ>\<open>real\<close>. The reply of the
  pattern-analysis service is an input: \<open>Inl\<close> an error, \<open>Inr\<close> the decoded response.
\<close>

record Pattern =
  pat_Type :: string
  pat_Description :: string
  pat_Metrics :: "string list"
  pat_Confidence :: real

record PatternAnalysisResponse =
  Patterns :: "Pattern list"
  Insights :: "string list"
  Summary_PatternsFound :: int
  Summary_Confidence :: real

record MLLayerDetector =
  enableML :: bool
  probabilityThreshold :: real
  rootCauseConfidenceThreshold :: real

definition NewMLLayerDetector :: "bool \<Rightarrow> MLLayerDetector" where
  "NewMLLayerDetector mlClientPresent =
     \<lparr> enableML = mlClientPresent,
       probabilityThreshold = 0.75,
       rootCauseConfidenceThreshold = 0.85 \<rparr>"

definition maxFloat64 :: "real \<Rightarrow> real \<Rightarrow> real" where
  "maxFloat64 a b = (if a > b then a else b)"

definition contains :: "string \<Rightarrow> string \<Rightarrow> bool" where
  "contains text substring =
     list_ex (\<lambda>i. take (length substring) (drop i text) = substring)
       [0 ..< nat (int (length text) - int (length substring) + 1)]"

definition containsAny :: "string \<Rightarrow> string list \<Rightarrow> bool" where
  "containsAny text keywords = list_ex (contains text) keywords"

definition containsLayer :: "string \<Rightarrow> Layer \<Rightarrow> bool" where
  "containsLayer text layer = contains text layer"

definition patternMatchesLayer :: "Pattern \<Rightarrow> Layer \<Rightarrow> bool" where
  "patternMatchesLayer pattern layer =
     (let description = pat_Description pattern @ '' '' @ pat_Type pattern in
      if layer = LayerInfrastructure then
        containsAny description
          [''infrastructure'', ''node'', ''mco'', ''machine'', ''kernel'', ''os'']
      else if layer = LayerPlatform then
        containsAny description
          [''platform'', ''operator'', ''sdn'', ''networking'', ''storage'', ''cluster'']
      else if layer = LayerApplication then
        containsAny description
          [''application'', ''pod'', ''deployment'', ''container'', ''workload'']
      else False)"

definition resourceMatchesLayer :: "Resource \<Rightarrow> Layer \<Rightarrow> bool" where
  "resourceMatchesLayer resource layer =
     (if layer = LayerInfrastructure then
        Kind resource = ''Node'' \<or> Kind resource = ''MachineConfig''
        \<or> Kind resource = ''MachineConfigPool''
      else if layer = LayerPlatform then
        Kind resource = ''ClusterOperator'' \<or> Kind resource = ''NetworkPolicy''
      else if layer = LayerApplication then
        Kind resource = ''Pod'' \<or> Kind resource = ''Deployment''
        \<or> Kind resource = ''StatefulSet''
      else False)"

definition calculateLayerProbability ::
    "PatternAnalysisResponse \<Rightarrow> Layer \<Rightarrow> Resource list \<Rightarrow> real" where
  "calculateLayerProbability resp layer resources =
     (let (baseProbability, layerMentioned) =
            fold (\<lambda>pattern (b, m).
                    if patternMatchesLayer pattern layer
                    then (maxFloat64 b (pat_Confidence pattern), True) else (b, m))
              (Patterns resp) (Summary_Confidence resp, False)
      in if \<not> layerMentioned then
           (if list_ex (\<lambda>r. resourceMatchesLayer r layer) resources then 0.70 else 0.0)
         else baseProbability)"

definition extractEvidence :: "PatternAnalysisResponse \<Rightarrow> Layer \<Rightarrow> string list" where
  "extractEvidence resp layer =
     filter (\<lambda>insight. containsLayer insight layer) (Insights resp)
     @ map pat_Type (filter (\<lambda>pattern. patternMatchesLayer pattern layer) (Patterns resp))"

definition determineMLRootCause :: "real \<Rightarrow> real \<Rightarrow> real \<Rightarrow> Layer" where
  "determineMLRootCause infraProb platformProb appProb =
     (let maxProb = maxFloat64 infraProb (maxFloat64 platformProb appProb) in
      if maxProb = infraProb \<and> infraProb > 0 then LayerInfrastructure
      else if maxProb = platformProb \<and> platformProb > 0 then LayerPlatform
      else LayerApplication)"

definition layerPrediction ::
    "MLLayerDetector \<Rightarrow> PatternAnalysisResponse \<Rightarrow> Layer \<Rightarrow> real \<Rightarrow> LayerPrediction option" where
  "layerPrediction mld resp layer prob =
     (if prob > 0.0 then
        Some \<lparr> Affected = (prob > probabilityThreshold mld),
               Probability = prob,
               Evidence = extractEvidence resp layer,
               IsRootCause = False \<rparr>
      else None)"

definition markRootCause :: "LayerPrediction option \<Rightarrow> LayerPrediction option" where
  "markRootCause p = map_option (\<lambda>lp. lp\<lparr>IsRootCause := True\<rparr>) p"

definition parseMLResponse ::
    "MLLayerDetector \<Rightarrow> PatternAnalysisResponse \<Rightarrow> Resource list \<Rightarrow> MLLayerPredictions" where
  "parseMLResponse mld resp resources =
     (let infraProb = calculateLayerProbability resp LayerInfrastructure resources;
          platformProb = calculateLayerProbability resp LayerPlatform resources;
          appProb = calculateLayerProbability resp LayerApplication resources;
          predictions =
            \<lparr> Infrastructure = layerPrediction mld resp LayerInfrastructure infraProb,
              Platform = layerPrediction mld resp LayerPlatform platformProb,
              Application = layerPrediction mld resp LayerApplication appProb,
              RootCauseSuggestion = determineMLRootCause infraProb platformProb appProb,
              Confidence = Summary_Confidence resp,
              AnalysisType = ''pattern'' \<rparr>
      in if RootCauseSuggestion predictions = LayerInfrastructure then
           predictions\<lparr>Infrastructure := markRootCause (Infrastructure predictions)\<rparr>
         else if RootCauseSuggestion predictions = LayerPlatform then
           predictions\<lparr>Platform := markRootCause (Platform predictions)\<rparr>
         else if RootCauseSuggestion predictions = LayerApplication then
           predictions\<lparr>Application := markRootCause (Application predictions)\<rparr>
         else predictions)"

definition getMLPredictions ::
    "MLLayerDetector \<Rightarrow> string + PatternAnalysisResponse \<Rightarrow> Resource list
     \<Rightarrow> string + MLLayerPredictions" where
  "getMLPredictions mld ml resources =
     (case ml of
        Inl err \<Rightarrow> Inl (''ML pattern analysis failed: '' @ err)
      | Inr resp \<Rightarrow> Inr (parseMLResponse mld resp resources))"

definition confidenceOf :: "LayeredIssue \<Rightarrow> Layer \<Rightarrow> real" where
  "confidenceOf issue layer = (case LayerConfidence issue layer of None \<Rightarrow> 0 | Some c \<Rightarrow> c)"

definition mergeLayerPrediction ::
    "LayeredIssue \<Rightarrow> Layer \<Rightarrow> LayerPrediction option \<Rightarrow> LayeredIssue" where
  "mergeLayerPrediction issue layer pred =
     (case pred of
        None \<Rightarrow> issue
      | Some p \<Rightarrow>
          if Affected p then
            (let issue' = AddAffectedLayer issue layer;
                 keywordConf = confidenceOf issue' layer
             in issue'\<lparr>LayerConfidence :=
                  (LayerConfidence issue')(layer \<mapsto> maxFloat64 keywordConf (Probability p))\<rparr>)
          else issue)"

definition enhanceWithMLPredictions ::
    "MLLayerDetector \<Rightarrow> LayeredIssue \<Rightarrow> MLLayerPredictions \<Rightarrow> LayeredIssue" where
  "enhanceWithMLPredictions mld issue mlPred =
     (let i0 = issue\<lparr>MLPredictions := Some mlPred\<rparr>;
          i1 = mergeLayerPrediction i0 LayerInfrastructure (Infrastructure mlPred);
          i2 = mergeLayerPrediction i1 LayerPlatform (Platform mlPred);
          i3 = mergeLayerPrediction i2 LayerApplication (Application mlPred);
          i4 = (if length (RootCauseSuggestion mlPred) > 0
                then i3\<lparr>HistoricalPattern := RootCauseSuggestion mlPred @ ''_pattern''\<rparr>
                else i3)
      in if Confidence mlPred \<ge> rootCauseConfidenceThreshold mld
         then i4\<lparr>RootCauseLayer := RootCauseSuggestion mlPred\<rparr>
         else i4)"

definition DetectLayersWithML ::
    "MLLayerDetector \<Rightarrow> string + PatternAnalysisResponse \<Rightarrow> string \<Rightarrow> string
     \<Rightarrow> Resource list \<Rightarrow> LayeredIssue" where
  "DetectLayersWithML mld ml issueID issueDescription resources =
     (let li0 = (DetectLayers issueID issueDescription resources)
                  \<lparr>DetectionMethod := ''keyword''\<rparr>;
          li1 = fold (\<lambda>layer li. li\<lparr>LayerConfidence := (LayerConfidence li)(layer \<mapsto> 0.70)\<rparr>)
                  (AffectedLayers li0) li0
      in if \<not> enableML mld then li1
         else (case getMLPredictions mld ml resources of
                 Inl err \<Rightarrow> li1
               | Inr mlPredictions \<Rightarrow>
                   (enhanceWithMLPredictions mld li1 mlPredictions)
                     \<lparr>DetectionMethod := ''ml_enhanced''\<rparr>))"

section \<open>Remediation plans (pkg/models)\<close>

text \<open>
  \<open>time.Duration\<close> is a count of nanoseconds; \<open>int\<close> in Go is modelled as \<^typ>\<open>int\<close>.
\<close>

type_synonym Duration = int

definition Minute :: Duration where
  "Minute = 60 * 1000000000"

record RemediationStep =
  step_Layer :: Layer
  step_Order :: int
  step_Description :: string
  step_ActionType :: string
  step_Target :: string
  step_WaitTime :: Duration
  step_Required :: bool
  step_Metadata :: "string \<rightharpoonup> string"

record HealthCheckpoint =
  cp_Layer :: Layer
  cp_AfterStep :: int
  cp_Checks :: "string list"
  cp_Timeout :: Duration
  cp_Required :: bool

record RemediationPlan =
  plan_ID :: string
  IssueID :: string
  Layers :: "Layer list"
  Steps :: "RemediationStep list"
  Checkpoints :: "HealthCheckpoint list"
  RollbackSteps :: "RemediationStep list"
  Status :: string
  CurrentStep :: int

fun digits :: "nat \<Rightarrow> string" where
  "digits n =
     (if n < 10 then [''0123456789'' ! n]
      else digits (n div 10) @ [''0123456789'' ! (n mod 10)])"

definition FormatInt :: "int \<Rightarrow> string" where
  "FormatInt n = (if n < 0 then CHR ''-'' # digits (nat (- n)) else digits (nat n))"

definition NewRemediationPlan :: "int \<Rightarrow> string \<Rightarrow> Layer list \<Rightarrow> RemediationPlan" where
  "NewRemediationPlan now issueID layers =
     \<lparr> plan_ID = ''plan-'' @ FormatInt now,
       IssueID = issueID,
       Layers = layers,
       Steps = [],
       Checkpoints = [],
       RollbackSteps = [],
       Status = ''pending'',
       CurrentStep = 0 \<rparr>"

definition AddStep :: "RemediationPlan \<Rightarrow> RemediationStep \<Rightarrow> RemediationPlan" where
  "AddStep rp step =
     (let step' = (if step_Order step = 0
                   then step\<lparr>step_Order := int (length (Steps rp)) + 1\<rparr> else step)
      in rp\<lparr>Steps := Steps rp @ [step']\<rparr>)"

definition AddCheckpoint :: "RemediationPlan \<Rightarrow> HealthCheckpoint \<Rightarrow> RemediationPlan" where
  "AddCheckpoint rp checkpoint = rp\<lparr>Checkpoints := Checkpoints rp @ [checkpoint]\<rparr>"

definition AddRollbackStep :: "RemediationPlan \<Rightarrow> RemediationStep \<Rightarrow> RemediationPlan" where
  "AddRollbackStep rp step = rp\<lparr>RollbackSteps := RollbackSteps rp @ [step]\<rparr>"

definition GetCheckpointAfterStep :: "RemediationPlan \<Rightarrow> int \<Rightarrow> HealthCheckpoint option" where
  "GetCheckpointAfterStep rp stepOrder =
     find (\<lambda>c. cp_AfterStep c = stepOrder) (Checkpoints rp)"

definition AdvanceStep :: "RemediationPlan \<Rightarrow> RemediationPlan" where
  "AdvanceStep rp = rp\<lparr>CurrentStep := CurrentStep rp + 1\<rparr>"

definition MarkExecuting :: "RemediationPlan \<Rightarrow> RemediationPlan" where
  "MarkExecuting rp = rp\<lparr>Status := ''executing''\<rparr>"

definition MarkCompleted :: "RemediationPlan \<Rightarrow> RemediationPlan" where
  "MarkCompleted rp = rp\<lparr>Status := ''completed''\<rparr>"

definition MarkFailed :: "RemediationPlan \<Rightarrow> RemediationPlan" where
  "MarkFailed rp = rp\<lparr>Status := ''failed''\<rparr>"

definition MarkRolledBack :: "RemediationPlan \<Rightarrow> RemediationPlan" where
  "MarkRolledBack rp = rp\<lparr>Status := ''rolled_back''\<rparr>"

section \<open>Multi-layer planner (internal/coordination)\<close>

text \<open>
  Each \<open>generate...Steps\<close> function loops over the resources with the slice of steps and
  the shared counter \<open>*stepOrder\<close> as its state; the loop body is the function folded.
\<close>

type_synonym StepAcc = "RemediationStep list \<times> int"

definition appendStep :: "StepAcc \<Rightarrow> (int \<Rightarrow> RemediationStep) \<Rightarrow> StepAcc" where
  "appendStep acc mk = (fst acc @ [mk (snd acc)], snd acc + 1)"

definition infrastructureStep :: "Resource \<Rightarrow> StepAcc \<Rightarrow> StepAcc" where
  "infrastructureStep resource acc =
     (if Kind resource = ''Node'' then
        appendStep acc (\<lambda>n.
          \<lparr> step_Layer = LayerInfrastructure,
            step_Order = n,
            step_Description = ''Monitor MCO rollout for node '' @ Name resource,
            step_ActionType = ''monitor_mco'',
            step_Target = Name resource,
            step_WaitTime = 5 * Minute,
            step_Required = True,
            step_Metadata = [''node'' \<mapsto> Name resource] \<rparr>)
      else if Kind resource = ''MachineConfig'' then
        appendStep acc (\<lambda>n.
          \<lparr> step_Layer = LayerInfrastructure,
            step_Order = n,
            step_Description = ''Monitor MachineConfig '' @ Name resource @ '' application'',
            step_ActionType = ''monitor_machineconfig'',
            step_Target = Name resource,
            step_WaitTime = 10 * Minute,
            step_Required = True,
            step_Metadata = [''machineconfig'' \<mapsto> Name resource] \<rparr>)
      else if Kind resource = ''MachineConfigPool'' then
        appendStep acc (\<lambda>n.
          \<lparr> step_Layer = LayerInfrastructure,
            step_Order = n,
            step_Description = ''Monitor MachineConfigPool '' @ Name resource @ '' update'',
            step_ActionType = ''monitor_mcp'',
            step_Target = Name resource,
            step_WaitTime = 15 * Minute,
            step_Required = True,
            step_Metadata = [''mcp'' \<mapsto> Name resource] \<rparr>)
      else acc)"

definition generateInfrastructureSteps :: "Resource list \<Rightarrow> int \<Rightarrow> StepAcc" where
  "generateInfrastructureSteps resources stepOrder =
     fold infrastructureStep resources ([], stepOrder)"

definition platformStep :: "Resource \<Rightarrow> StepAcc \<Rightarrow> StepAcc" where
  "platformStep resource acc =
     (let acc1 =
        (if Contains (Kind resource) ''Operator'' then
           appendStep acc (\<lambda>n.
             \<lparr> step_Layer = LayerPlatform,
               step_Order = n,
               step_Description = ''Trigger reconciliation for '' @ Name resource,
               step_ActionType = ''trigger_operator_reconciliation'',
               step_Target = Namespace resource @ ''/'' @ Name resource,
               step_WaitTime = 3 * Minute,
               step_Required = True,
               step_Metadata =
                 [''operator'' \<mapsto> Name resource, ''namespace'' \<mapsto> Namespace resource] \<rparr>)
         else acc)
      in if Kind resource = ''ClusterOperator'' then
           appendStep acc1 (\<lambda>n.
             \<lparr> step_Layer = LayerPlatform,
               step_Order = n,
               step_Description = ''Monitor ClusterOperator '' @ Name resource @ '' status'',
               step_ActionType = ''monitor_clusteroperator'',
               step_Target = Name resource,
               step_WaitTime = 5 * Minute,
               step_Required = True,
               step_Metadata = [''clusteroperator'' \<mapsto> Name resource] \<rparr>)
         else acc1)"

definition generatePlatformSteps :: "Resource list \<Rightarrow> int \<Rightarrow> StepAcc" where
  "generatePlatformSteps resources stepOrder = fold platformStep resources ([], stepOrder)"

definition applicationStep :: "Resource \<Rightarrow> StepAcc \<Rightarrow> StepAcc" where
  "applicationStep resource acc =
     (if Kind resource = ''Pod'' then
        appendStep acc (\<lambda>n.
          \<lparr> step_Layer = LayerApplication,
            step_Order = n,
            step_Description =
              ''Restart pod '' @ Namespace resource @ ''/'' @ Name resource,
            step_ActionType = ''restart_pod'',
            step_Target = Namespace resource @ ''/'' @ Name resource,
            step_WaitTime = 2 * Minute,
            step_Required = False,
            step_Metadata =
              [''pod'' \<mapsto> Name resource, ''namespace'' \<mapsto> Namespace resource] \<rparr>)
      else if Kind resource = ''Deployment'' then
        appendStep acc (\<lambda>n.
          \<lparr> step_Layer = LayerApplication,
            step_Order = n,
            step_Description =
              ''Restart deployment '' @ Namespace resource @ ''/'' @ Name resource,
            step_ActionType = ''restart_deployment'',
            step_Target = Namespace resource @ ''/'' @ Name resource,
            step_WaitTime = 2 * Minute,
            step_Required = False,
            step_Metadata =
              [''deployment'' \<mapsto> Name resource, ''namespace'' \<mapsto> Namespace resource] \<rparr>)
      else if Kind resource = ''StatefulSet'' then
        appendStep acc (\<lambda>n.
          \<lparr> step_Layer = LayerApplication,
            step_Order = n,
            step_Description =
              ''Restart StatefulSet '' @ Namespace resource @ ''/'' @ Name resource,
            step_ActionType = ''restart_statefulset'',
            step_Target = Namespace resource @ ''/'' @ Name resource,
            step_WaitTime = 3 * Minute,
            step_Required = False,
            step_Metadata =
              [''statefulset'' \<mapsto> Name resource, ''namespace'' \<mapsto> Namespace resource] \<rparr>)
      else acc)"

definition generateApplicationSteps :: "Resource list \<Rightarrow> int \<Rightarrow> StepAcc" where
  "generateApplicationSteps resources stepOrder =
     fold applicationStep resources ([], stepOrder)"

definition generateStepsForLayer :: "Layer \<Rightarrow> Resource list \<Rightarrow> int \<Rightarrow> StepAcc" where
  "generateStepsForLayer layer resources stepOrder =
     (if layer = LayerInfrastructure then generateInfrastructureSteps resources stepOrder
      else if layer = LayerPlatform then generatePlatformSteps resources stepOrder
      else if layer = LayerApplication then generateApplicationSteps resources stepOrder
      else ([], stepOrder))"

definition layerChecks :: "Layer \<Rightarrow> string list" where
  "layerChecks layer =
     (if layer = LayerInfrastructure then
        [''nodes_ready'', ''mco_stable'', ''storage_available'', ''system_pods_running'']
      else if layer = LayerPlatform then
        [''operators_ready'', ''clusteroperators_available'', ''networking_functional'',
         ''ingress_available'']
      else if layer = LayerApplication then
        [''pods_running'', ''deployments_ready'', ''endpoints_healthy'',
         ''services_responding'']
      else [])"

definition lastStepPerLayer :: "RemediationStep list \<Rightarrow> (Layer \<rightharpoonup> int)" where
  "lastStepPerLayer steps =
     fold (\<lambda>step m. m(step_Layer step \<mapsto> step_Order step)) steps Map.empty"

definition generateCheckpoints :: "Layer list \<Rightarrow> RemediationStep list \<Rightarrow> HealthCheckpoint list" where
  "generateCheckpoints layers steps =
     fold (\<lambda>layer checkpoints.
             case lastStepPerLayer steps layer of
               None \<Rightarrow> checkpoints
             | Some lastStep \<Rightarrow>
                 checkpoints @
                 [\<lparr> cp_Layer = layer,
                    cp_AfterStep = lastStep,
                    cp_Checks = layerChecks layer,
                    cp_Timeout = 10 * Minute,
                    cp_Required = True \<rparr>])
       layers []"

definition rollbackOf :: "RemediationStep list \<Rightarrow> nat \<Rightarrow> RemediationStep" where
  "rollbackOf steps i =
     (let step = steps ! i in
      \<lparr> step_Layer = step_Layer step,
        step_Order = int (length steps) - int i,
        step_Description = ''Rollback: '' @ step_Description step,
        step_ActionType = ''rollback_'' @ step_ActionType step,
        step_Target = step_Target step,
        step_WaitTime = step_WaitTime step,
        step_Required = step_Required step,
        step_Metadata = step_Metadata step \<rparr>)"

definition generateRollbackSteps :: "RemediationStep list \<Rightarrow> RemediationStep list" where
  "generateRollbackSteps steps = map (rollbackOf steps) (rev [0 ..< length steps])"

text \<open>
  \<open>GeneratePlan\<close>. The inputs the source draws from its surroundings are parameters: the
  eight characters of the fresh UUID and the clock reading used by \<open>NewRemediationPlan\<close>.
\<close>

definition planLayer :: "LayeredIssue \<Rightarrow> Layer \<Rightarrow> RemediationPlan \<times> int \<Rightarrow> RemediationPlan \<times> int" where
  "planLayer issue layer st =
     (let resources = GetResourcesForLayer issue layer;
          (layerSteps, stepOrder') = generateStepsForLayer layer resources (snd st)
      in (fold (\<lambda>step plan. AddStep plan step) layerSteps (fst st), stepOrder'))"

definition GeneratePlan :: "string \<Rightarrow> int \<Rightarrow> LayeredIssue \<Rightarrow> RemediationPlan" where
  "GeneratePlan uuid8 now issue =
     (let planID = ''plan-'' @ uuid8;
          orderedLayers = GetLayersByPriority issue;
          plan0 = (NewRemediationPlan now (ID issue) orderedLayers)\<lparr>plan_ID := planID\<rparr>;
          plan1 = fst (fold (planLayer issue) orderedLayers (plan0, 1));
          checkpoints = generateCheckpoints orderedLayers (Steps plan1);
          plan2 = fold (\<lambda>checkpoint plan. AddCheckpoint plan checkpoint) checkpoints plan1;
          rollbackSteps = generateRollbackSteps (Steps plan2)
      in fold (\<lambda>step plan. AddRollbackStep plan step) rollbackSteps plan2)"

section \<open>Deployment detection (pkg/models, internal/detector)\<close>

datatype DeploymentMethod =
    DeploymentMethodArgoCD
  | DeploymentMethodHelm
  | DeploymentMethodOperator
  | DeploymentMethodManual
  | DeploymentMethodUnknown

record DeploymentInfo =
  Method :: DeploymentMethod
  info_Confidence :: real
  Source :: string
  Details :: "string \<rightharpoonup> string"
  info_Namespace :: string
  ResourceName :: string
  ResourceKind :: string

definition NewDeploymentInfo ::
    "string \<Rightarrow> string \<Rightarrow> string \<Rightarrow> DeploymentMethod \<Rightarrow> real \<Rightarrow> DeploymentInfo" where
  "NewDeploymentInfo namespace resourceName resourceKind method confidence =
     \<lparr> Method = method,
       info_Confidence = confidence,
       Source = [],
       Details = Map.empty,
       info_Namespace = namespace,
       ResourceName = resourceName,
       ResourceKind = resourceKind \<rparr>"

definition SetDetail :: "DeploymentInfo \<Rightarrow> string \<Rightarrow> string \<Rightarrow> DeploymentInfo" where
  "SetDetail d key v = d\<lparr>Details := (Details d)(key \<mapsto> v)\<rparr>"

definition ArgoCDTrackingAnnotation :: string where
  "ArgoCDTrackingAnnotation = ''argocd.argoproj.io/tracking-id''"

definition ArgoCDInstanceLabel :: string where
  "ArgoCDInstanceLabel = ''argocd.argoproj.io/instance''"

definition HelmReleaseNameAnnotation :: string where
  "HelmReleaseNameAnnotation = ''meta.helm.sh/release-name''"

definition HelmReleaseNamespaceAnnotation :: string where
  "HelmReleaseNamespaceAnnotation = ''meta.helm.sh/release-namespace''"

definition HelmChartLabel :: string where
  "HelmChartLabel = ''helm.sh/chart''"

definition ManagedByLabel :: string where
  "ManagedByLabel = ''app.kubernetes.io/managed-by''"

definition ConfidenceArgoCD :: real where "ConfidenceArgoCD = 0.95"
definition ConfidenceHelm :: real where "ConfidenceHelm = 0.90"
definition ConfidenceOperator :: real where "ConfidenceOperator = 0.80"
definition ConfidenceManual :: real where "ConfidenceManual = 0.60"

definition isOperatorManager :: "string \<Rightarrow> bool" where
  "isOperatorManager managedBy =
     (let managedByLower = ToLower managedBy in
      list_ex (Contains managedByLower) [''operator'', ''.operator'', ''-operator'']
      \<or> list_ex (\<lambda>operator. managedByLower = operator)
           [''prometheus-operator'', ''etcd-operator'', ''mysql-operator'',
            ''postgres-operator'', ''redis-operator'', ''kafka-operator'',
            ''elastic-operator'', ''mongodb-operator''])"

text \<open>\<open>v, ok := m[k]; ok && v != ""\<close>: the value of a key that is present and not empty.\<close>

definition presentNonEmpty :: "(string \<rightharpoonup> string) \<Rightarrow> string \<Rightarrow> string option" where
  "presentNonEmpty m k = (case m k of None \<Rightarrow> None | Some v \<Rightarrow> if v \<noteq> [] then Some v else None)"

text \<open>\<open>if v, ok := m[k]; ok { info.SetDetail(key, v) }\<close>\<close>

definition setDetailIfPresent ::
    "DeploymentInfo \<Rightarrow> string \<Rightarrow> string option \<Rightarrow> DeploymentInfo" where
  "setDetailIfPresent info key v = (case v of None \<Rightarrow> info | Some x \<Rightarrow> SetDetail info key x)"

definition manualInfo ::
    "(string \<rightharpoonup> string) \<Rightarrow> string \<Rightarrow> string \<Rightarrow> string \<Rightarrow> DeploymentInfo" where
  "manualInfo labels namespace resourceName resourceKind =
     (let info0 = (NewDeploymentInfo namespace resourceName resourceKind
                     DeploymentMethodManual ConfidenceManual)\<lparr>Source := ''default''\<rparr>;
          info1 = SetDetail info0 ''reason'' ''no deployment method indicators found'';
          info2 = setDetailIfPresent info1 ''app'' (labels ''app'')
      in setDetailIfPresent info2 ''version'' (labels ''version''))"

definition detectFromMetadata ::
    "(string \<rightharpoonup> string) \<Rightarrow> (string \<rightharpoonup> string) \<Rightarrow> string \<Rightarrow> string \<Rightarrow> string
     \<Rightarrow> DeploymentInfo" where
  "detectFromMetadata annotations labels namespace resourceName resourceKind =
     (case presentNonEmpty annotations ArgoCDTrackingAnnotation of
        Some trackingID \<Rightarrow>
          (let info0 = (NewDeploymentInfo namespace resourceName resourceKind
                          DeploymentMethodArgoCD ConfidenceArgoCD)
                         \<lparr>Source := ''annotation:'' @ ArgoCDTrackingAnnotation\<rparr>;
               info1 = SetDetail info0 ''tracking_id'' trackingID;
               info2 = setDetailIfPresent info1 ''app_name'' (labels ArgoCDInstanceLabel)
           in setDetailIfPresent info2 ''argocd_app'' (labels ''app.kubernetes.io/instance''))
      | None \<Rightarrow>
     (case presentNonEmpty labels ArgoCDInstanceLabel of
        Some appName \<Rightarrow>
          SetDetail ((NewDeploymentInfo namespace resourceName resourceKind
                        DeploymentMethodArgoCD ConfidenceArgoCD)
                       \<lparr>Source := ''label:'' @ ArgoCDInstanceLabel\<rparr>) ''argocd_app'' appName
      | None \<Rightarrow>
     (case presentNonEmpty annotations HelmReleaseNameAnnotation of
        Some releaseName \<Rightarrow>
          (let info0 = (NewDeploymentInfo namespace resourceName resourceKind
                          DeploymentMethodHelm ConfidenceHelm)
                         \<lparr>Source := ''annotation:'' @ HelmReleaseNameAnnotation\<rparr>;
               info1 = SetDetail info0 ''release_name'' releaseName;
               info2 = setDetailIfPresent info1 ''release_namespace''
                         (annotations HelmReleaseNamespaceAnnotation)
           in setDetailIfPresent info2 ''chart'' (labels HelmChartLabel))
      | None \<Rightarrow>
     (case presentNonEmpty labels ManagedByLabel of
        Some managedBy \<Rightarrow>
          if managedBy \<noteq> ''Helm'' \<and> \<not> Contains (ToLower managedBy) ''helm''
             \<and> isOperatorManager managedBy
          then
            (let info0 = (NewDeploymentInfo namespace resourceName resourceKind
                            DeploymentMethodOperator ConfidenceOperator)
                           \<lparr>Source := ''label:'' @ ManagedByLabel\<rparr>;
                 info1 = SetDetail info0 ''operator'' managedBy;
                 info2 = SetDetail info1 ''managed_by'' managedBy
             in setDetailIfPresent info2 ''operator_name'' (labels ''app.kubernetes.io/name''))
          else manualInfo labels namespace resourceName resourceKind
      | None \<Rightarrow> manualInfo labels namespace resourceName resourceKind))))"

section \<open>Multi-layer orchestrator (internal/coordination)\<close>

record Issue =
  issue_ID :: string
  issue_Type :: string
  issue_Severity :: string
  issue_Namespace :: string
  issue_ResourceType :: string
  issue_ResourceName :: string
  issue_Description :: string

text \<open>
  The orchestrator's collaborators are inputs. Each is asked at a step index (the position
  of the step in the plan), so that its answer may change as execution proceeds:
  \<open>detectByKind\<close> is the deployment detector, \<open>remediate\<close> the strategy selector,
  \<open>checkHealth\<close> the health checker of a layer. Every call made to a collaborator is
  recorded in order.

  The wait after a successful step is \<open>select { case <-time.After(wait): case <-ctx.Done(): }\<close>.
  \<open>ctxDone i\<close> tells whether the context is done when the select that follows step \<open>i\<close>
  is decided (for a context that is cancelled from the start it is true everywhere). When
  the context is not done the select receives from the timer. When the context is done, the
  select receives from \<open>ctx.Done()\<close>, unless the timer has fired by then as well and the
  random choice Go makes between two ready cases falls on the timer: \<open>timerFirst i\<close> tells
  whether that happens. The longer the wait, the less likely it is, but nothing in the code
  excludes it.
\<close>

record Env =
  detectByKind :: "nat \<Rightarrow> string \<Rightarrow> string \<Rightarrow> string \<Rightarrow> string + DeploymentInfo"
  remediate :: "nat \<Rightarrow> DeploymentInfo \<Rightarrow> Issue \<Rightarrow> string option"
  checkHealth :: "nat \<Rightarrow> Layer \<Rightarrow> string option"
  ctxDone :: "nat \<Rightarrow> bool"
  timerFirst :: "nat \<Rightarrow> bool"
  ctxErr :: string

datatype Call =
    DetectCall string string string
  | RemediateCall DeploymentInfo Issue
  | HealthCheckCall Layer Duration
  | RollbackLog int

record ExecutionResult =
  res_Status :: string
  Reason :: string
  ExecutedSteps :: int
  FailedStep :: "int option"

definition splitTarget :: "string \<Rightarrow> string list" where
  "splitTarget target =
     (let (result, current) =
            fold (\<lambda>ch (result, current).
                    if ch = CHR ''/'' then
                      (if current \<noteq> [] then (result @ [current], []) else (result, current))
                    else (result, current @ [ch]))
              target ([], [])
      in if current \<noteq> [] then result @ [current] else result)"

definition parseTarget :: "string \<Rightarrow> string + (string \<times> string)" where
  "parseTarget target =
     (case splitTarget target of
        [namespace, name] \<Rightarrow> Inr (namespace, name)
      | _ \<Rightarrow> Inl (''target must be in format 'namespace/name', got: '' @ target))"

definition mapActionTypeToIssueType :: "string \<Rightarrow> string" where
  "mapActionTypeToIssueType actionType =
     (if actionType = ''restart_pod'' then ''pod_crash_loop''
      else if actionType = ''restart_deployment'' then ''deployment_not_ready''
      else if actionType = ''restart_statefulset'' then ''statefulset_not_ready''
      else ''generic_issue'')"

definition metadataValue :: "(string \<rightharpoonup> string) \<Rightarrow> string \<Rightarrow> string" where
  "metadataValue m k = (case m k of None \<Rightarrow> [] | Some v \<Rightarrow> v)"

definition executeInfrastructureStep :: "RemediationStep \<Rightarrow> string option" where
  "executeInfrastructureStep step =
     (if step_ActionType step \<in> set [''monitor_mco'', ''monitor_machineconfig'', ''monitor_mcp'']
      then None else None)"

definition executePlatformStep :: "RemediationStep \<Rightarrow> string option" where
  "executePlatformStep step =
     (if step_ActionType step = ''trigger_operator_reconciliation'' then None
      else if step_ActionType step = ''monitor_clusteroperator'' then None
      else None)"

definition fallbackDeploymentInfo :: "string \<Rightarrow> string \<Rightarrow> string \<Rightarrow> DeploymentInfo" where
  "fallbackDeploymentInfo namespace resourceName resourceKind =
     NewDeploymentInfo namespace resourceName resourceKind DeploymentMethodUnknown 0.5"

definition executeApplicationStep ::
    "Env \<Rightarrow> nat \<Rightarrow> RemediationStep \<Rightarrow> string option \<times> Call list" where
  "executeApplicationStep env i step =
     (case parseTarget (step_Target step) of
        Inl err \<Rightarrow> (Some (''invalid target format: '' @ err), [])
      | Inr (namespace, resourceName) \<Rightarrow>
          (let k0 = metadataValue (step_Metadata step) ''deployment'';
               k1 = (if k0 = [] then metadataValue (step_Metadata step) ''statefulset'' else k0);
               k2 = (if k1 = [] then metadataValue (step_Metadata step) ''pod'' else k1);
               resourceKind = (if k2 = [] then ''Deployment'' else k2);
               issue = \<lparr> issue_ID = ''step-'' @ FormatInt (step_Order step),
                         issue_Type = mapActionTypeToIssueType (step_ActionType step),
                         issue_Severity = ''medium'',
                         issue_Namespace = namespace,
                         issue_ResourceType = resourceKind,
                         issue_ResourceName = resourceName,
                         issue_Description = step_Description step \<rparr>;
               deploymentInfo =
                 (case detectByKind env i namespace resourceName resourceKind of
                    Inl err \<Rightarrow> fallbackDeploymentInfo namespace resourceName resourceKind
                  | Inr info \<Rightarrow> info);
               calls = [DetectCall namespace resourceName resourceKind,
                        RemediateCall deploymentInfo issue]
           in case remediate env i deploymentInfo issue of
                Some err \<Rightarrow> (Some (''application remediation failed: '' @ err), calls)
              | None \<Rightarrow> (None, calls)))"

definition executeStep :: "Env \<Rightarrow> nat \<Rightarrow> RemediationStep \<Rightarrow> string option \<times> Call list" where
  "executeStep env i step =
     (if step_Layer step = LayerInfrastructure then (executeInfrastructureStep step, [])
      else if step_Layer step = LayerPlatform then (executePlatformStep step, [])
      else if step_Layer step = LayerApplication then executeApplicationStep env i step
      else (Some (''unknown layer: '' @ step_Layer step), []))"

definition verifyCheckpoint ::
    "Env \<Rightarrow> nat \<Rightarrow> HealthCheckpoint \<Rightarrow> string option \<times> Call list" where
  "verifyCheckpoint env i checkpoint =
     (if cp_Layer checkpoint = LayerInfrastructure \<or> cp_Layer checkpoint = LayerPlatform
         \<or> cp_Layer checkpoint = LayerApplication
      then (checkHealth env i (cp_Layer checkpoint),
            [HealthCheckCall (cp_Layer checkpoint) (cp_Timeout checkpoint)])
      else (Some (''unknown layer: '' @ cp_Layer checkpoint), []))"

text \<open>
  Rollback only writes log lines, in reverse order of execution, and never fails.
\<close>

definition executeRollback :: "RemediationStep \<Rightarrow> string option" where
  "executeRollback step = None"

definition rollbackSteps :: "RemediationStep list \<Rightarrow> string option \<times> Call list" where
  "rollbackSteps steps = (None, map (\<lambda>step. RollbackLog (step_Order step)) (rev steps))"

type_synonym Outcome = "ExecutionResult \<times> string option \<times> RemediationPlan \<times> Call list"

definition failAndRollback ::
    "RemediationPlan \<Rightarrow> RemediationStep list \<Rightarrow> Call list \<Rightarrow> nat \<Rightarrow> string \<Rightarrow> string
     \<Rightarrow> Outcome" where
  "failAndRollback plan executedSteps calls i reason err =
     (let plan1 = MarkFailed plan;
          (rerr, rcalls) = rollbackSteps executedSteps;
          plan2 = (case rerr of Some e \<Rightarrow> MarkRolledBack plan1 | None \<Rightarrow> plan1)
      in (\<lparr> res_Status = ''failed'', Reason = reason,
            ExecutedSteps = int (length executedSteps), FailedStep = Some (int i) \<rparr>,
          Some err, plan2, calls @ rcalls))"

fun executeLoop ::
    "Env \<Rightarrow> nat \<Rightarrow> RemediationStep list \<Rightarrow> RemediationPlan \<Rightarrow> RemediationStep list
     \<Rightarrow> Call list \<Rightarrow> Outcome" where
  "executeLoop env i [] plan executedSteps calls =
     (\<lparr> res_Status = ''success'', Reason = [],
        ExecutedSteps = int (length executedSteps), FailedStep = None \<rparr>,
      None, MarkCompleted plan, calls)"
| "executeLoop env i (step # rest) plan executedSteps calls =
     (case executeStep env i step of
        (Some err, cs) \<Rightarrow>
          if \<not> step_Required step
          then executeLoop env (i + 1) rest plan executedSteps (calls @ cs)
          else failAndRollback plan executedSteps (calls @ cs) i err err
      | (None, cs) \<Rightarrow>
          (let executedSteps1 = executedSteps @ [step];
               plan1 = AdvanceStep plan
           in if step_WaitTime step > 0 \<and> ctxDone env i \<and> \<not> timerFirst env i then
                (\<lparr> res_Status = ''failed'', Reason = ''context cancelled'',
                   ExecutedSteps = int (length executedSteps1), FailedStep = None \<rparr>,
                 Some (''plan execution cancelled: '' @ ctxErr env), plan1, calls @ cs)
              else
                (case GetCheckpointAfterStep plan1 (step_Order step) of
                   None \<Rightarrow> executeLoop env (i + 1) rest plan1 executedSteps1 (calls @ cs)
                 | Some checkpoint \<Rightarrow>
                     (case verifyCheckpoint env i checkpoint of
                        (Some err, hcs) \<Rightarrow>
                          if \<not> cp_Required checkpoint
                          then executeLoop env (i + 1) rest plan1 executedSteps1
                                 (calls @ cs @ hcs)
                          else failAndRollback plan1 executedSteps1 (calls @ cs @ hcs) i
                                 (''checkpoint failed: '' @ err) err
                      | (None, hcs) \<Rightarrow>
                          executeLoop env (i + 1) rest plan1 executedSteps1
                            (calls @ cs @ hcs)))))"

definition ExecutePlan :: "Env \<Rightarrow> RemediationPlan \<Rightarrow> Outcome" where
  "ExecutePlan env plan = executeLoop env 0 (Steps plan) (MarkExecuting plan) [] []"

section \<open>Operator remediator (internal/remediation)\<close>

record GroupVersionResource =
  gvr_Group :: string
  gvr_Version :: string
  gvr_Resource :: string

record CustomResourceInfo =
  cr_Kind :: string
  cr_Name :: string
  cr_APIVersion :: string
  cr_Group :: string
  cr_Version :: string
  cr_Resource :: string

text \<open>
  The cluster, as the dynamic client sees it: objects keyed by resource, namespace and
  name. Of an object only its annotations matter here; the rest is carried along. A merge
  patch of \<open>metadata.annotations\<close> sets the keys it lists and keeps every other key.
\<close>

record Unstructured =
  obj_annotations :: "string \<rightharpoonup> string"
  obj_rest :: string

type_synonym Cluster = "(GroupVersionResource \<times> string \<times> string) \<rightharpoonup> Unstructured"

datatype ApiCall =
    ApiGet GroupVersionResource string string
  | ApiMergePatch GroupVersionResource string string "(string \<times> string) list"

definition dynamicGet ::
    "Cluster \<Rightarrow> GroupVersionResource \<Rightarrow> string \<Rightarrow> string \<Rightarrow> string + Unstructured" where
  "dynamicGet cluster gvr namespace name =
     (case cluster (gvr, namespace, name) of
        None \<Rightarrow> Inl (gvr_Resource gvr @ '' '' @ name @ '' not found'')
      | Some obj \<Rightarrow> Inr obj)"

definition dynamicMergePatch ::
    "Cluster \<Rightarrow> GroupVersionResource \<Rightarrow> string \<Rightarrow> string \<Rightarrow> (string \<times> string) list
     \<Rightarrow> (string + Unstructured) \<times> Cluster" where
  "dynamicMergePatch cluster gvr namespace name annotations =
     (case cluster (gvr, namespace, name) of
        None \<Rightarrow> (Inl (gvr_Resource gvr @ '' '' @ name @ '' not found''), cluster)
      | Some obj \<Rightarrow>
          (let obj' = obj\<lparr>obj_annotations :=
                        fold (\<lambda>(k, v) m. m(k \<mapsto> v)) annotations (obj_annotations obj)\<rparr>
           in (Inr obj', cluster((gvr, namespace, name) \<mapsto> obj'))))"

definition triggerReconciliation ::
    "Cluster \<Rightarrow> int \<Rightarrow> CustomResourceInfo \<Rightarrow> string
     \<Rightarrow> string option \<times> Cluster \<times> ApiCall list" where
  "triggerReconciliation cluster now cr namespace =
     (let gvr = \<lparr> gvr_Group = cr_Group cr, gvr_Version = cr_Version cr,
                   gvr_Resource = cr_Resource cr \<rparr>
      in case dynamicGet cluster gvr namespace (cr_Name cr) of
           Inl err \<Rightarrow>
             (Some (''failed to get CR: '' @ err), cluster, [ApiGet gvr namespace (cr_Name cr)])
         | Inr obj \<Rightarrow>
             (let timestamp = FormatInt now;
                  patchData = [(''remediation.aiops/trigger'', timestamp),
                               (''remediation.aiops/trigger-by'', ''coordination-engine'')];
                  calls = [ApiGet gvr namespace (cr_Name cr),
                           ApiMergePatch gvr namespace (cr_Name cr) patchData]
              in case dynamicMergePatch cluster gvr namespace (cr_Name cr) patchData of
                   (Inl err, cluster') \<Rightarrow> (Some (''failed to patch CR: '' @ err), cluster', calls)
                 | (Inr obj', cluster') \<Rightarrow> (None, cluster', calls)))"

section \<open>Notions used in the statements and proofs\<close>

text \<open>
  \<open>numbered k (steps, n)\<close>: the steps carry the orders \<open>k, k + 1, \<dots>\<close> and \<open>n\<close> is the
  next free order. \<open>stepsFrom issue layers n\<close> is the sequence of steps the planner emits
  for the given layers when its counter starts at \<open>n\<close>.
\<close>

definition numbered :: "int \<Rightarrow> StepAcc \<Rightarrow> bool" where
  "numbered k acc \<longleftrightarrow>
     snd acc = k + int (length (fst acc))
     \<and> (\<forall>i < length (fst acc). step_Order (fst acc ! i) = k + int i)"

fun stepsFrom :: "LayeredIssue \<Rightarrow> Layer list \<Rightarrow> int \<Rightarrow> RemediationStep list" where
  "stepsFrom issue [] n = []"
| "stepsFrom issue (l # ls) n =
     fst (generateStepsForLayer l (GetResourcesForLayer issue l) n)
     @ stepsFrom issue ls (snd (generateStepsForLayer l (GetResourcesForLayer issue l) n))"

text \<open>
  The planner's table of the specification: the resource kinds for which a layer has a
  row.
\<close>

definition plannerTable :: "Layer \<Rightarrow> Resource \<Rightarrow> bool" where
  "plannerTable layer resource =
     (if layer = LayerInfrastructure then
        Kind resource \<in> set [''Node'', ''MachineConfig'', ''MachineConfigPool'']
      else if layer = LayerPlatform then
        Contains (Kind resource) ''Operator'' \<or> Kind resource = ''ClusterOperator''
      else if layer = LayerApplication then
        Kind resource \<in> set [''Pod'', ''Deployment'', ''StatefulSet'']
      else False)"

text \<open>
  The target a step carries for a resource: the name for an infrastructure resource,
  namespace and name for a platform or application resource.
\<close>

definition stepTarget :: "Layer \<Rightarrow> Resource \<Rightarrow> string" where
  "stepTarget layer resource =
     (if layer = LayerInfrastructure then Name resource
      else Namespace resource @ ''/'' @ Name resource)"

text \<open>
  The canonical confidence of a deployment method, in the words of the specification:
  0.95 for gitops (ArgoCD), 0.90 for the template tool (Helm), 0.80 for controller-managed
  (operator), 0.60 for direct (manual); none is given for \<open>unknown\<close>.
\<close>

definition canonicalConfidence :: "DeploymentMethod \<Rightarrow> real option" where
  "canonicalConfidence method =
     (case method of
        DeploymentMethodArgoCD \<Rightarrow> Some 0.95
      | DeploymentMethodHelm \<Rightarrow> Some 0.90
      | DeploymentMethodOperator \<Rightarrow> Some 0.80
      | DeploymentMethodManual \<Rightarrow> Some 0.60
      | DeploymentMethodUnknown \<Rightarrow> None)"

text \<open>
  Readings of the list of calls an execution has made: the health checks with their
  timeouts, the remediation attempts, and the deployment infos handed to the remediators.
\<close>

fun healthCheckOf :: "Call \<Rightarrow> (Layer \<times> Duration) option" where
  "healthCheckOf (HealthCheckCall layer timeout) = Some (layer, timeout)"
| "healthCheckOf call = None"

definition healthChecks :: "Call list \<Rightarrow> (Layer \<times> Duration) list" where
  "healthChecks calls = List.map_filter healthCheckOf calls"

fun isRemediateCall :: "Call \<Rightarrow> bool" where
  "isRemediateCall (RemediateCall info issue) = True"
| "isRemediateCall call = False"

fun remediatedInfo :: "Call \<Rightarrow> DeploymentInfo option" where
  "remediatedInfo (RemediateCall info issue) = Some info"
| "remediatedInfo call = None"

section \<open>Concrete inputs\<close>

text \<open>
  A reply of the pattern-analysis service that is confident and reports no pattern.
\<close>

definition ml_silent :: PatternAnalysisResponse where
  "ml_silent =
     \<lparr> Patterns = [], Insights = [], Summary_PatternsFound = 0, Summary_Confidence = 0.9 \<rparr>"

text \<open>
  Issues: a node under memory pressure with a crash-looping pod, a single crash-looping
  pod, a DaemonSet, a ClusterOperator, an operator-managed resource with a pod, and a
  hand-built issue that carries a Node although only the application layer is listed as
  affected; and the plans of the first two.
\<close>

definition nodePodIssue :: LayeredIssue where
  "nodePodIssue =
     DetectLayers ''inc-5'' ''node memory pressure causing pod crash loops''
       [\<lparr>Kind = ''Node'', Name = ''n1'', Namespace = [], Issue = ''MemoryPressure''\<rparr>,
        \<lparr>Kind = ''Pod'', Name = ''p1'', Namespace = ''default'', Issue = ''CrashLoopBackOff''\<rparr>]"

definition podIssue :: LayeredIssue where
  "podIssue =
     DetectLayers ''inc-1'' ''pod crash loop''
       [\<lparr>Kind = ''Pod'', Name = ''p1'', Namespace = ''default'', Issue = ''CrashLoopBackOff''\<rparr>]"

definition daemonSetIssue :: LayeredIssue where
  "daemonSetIssue =
     DetectLayers ''inc-6'' ''daemonset unavailable''
       [\<lparr>Kind = ''DaemonSet'', Name = ''fluentd'', Namespace = ''logging'', Issue = ''NotReady''\<rparr>]"

definition clusterOperatorIssue :: LayeredIssue where
  "clusterOperatorIssue =
     DetectLayers ''inc-7'' ''authentication unavailable''
       [\<lparr>Kind = ''ClusterOperator'', Name = ''authentication'', Namespace = [],
         Issue = ''Unavailable''\<rparr>]"

definition operatorIssue :: LayeredIssue where
  "operatorIssue =
     DetectLayers ''inc-8'' ''etcd members unhealthy''
       [\<lparr>Kind = ''EtcdOperator'', Name = ''etcd'', Namespace = ''openshift-etcd'',
         Issue = ''Unhealthy''\<rparr>,
        \<lparr>Kind = ''Pod'', Name = ''p1'', Namespace = ''default'', Issue = ''CrashLoopBackOff''\<rparr>]"

definition orphanNodeIssue :: LayeredIssue where
  "orphanNodeIssue =
     (NewLayeredIssue ''inc-9'' ''slow responses'' LayerApplication)
       \<lparr>ImpactedResources :=
          [LayerInfrastructure \<mapsto>
             [\<lparr>Kind = ''Node'', Name = ''n1'', Namespace = [], Issue = ''MemoryPressure''\<rparr>]]\<rparr>"

text \<open>
  A hand-built issue that lists the application layer twice.
\<close>

definition doubledLayerIssue :: LayeredIssue where
  "doubledLayerIssue =
     (NewLayeredIssue ''inc-11'' ''pod crash loop'' LayerApplication)
       \<lparr>AffectedLayers := [LayerApplication, LayerApplication],
        ImpactedResources :=
          [LayerApplication \<mapsto>
             [\<lparr>Kind = ''Pod'', Name = ''p1'', Namespace = ''default'',
               Issue = ''CrashLoopBackOff''\<rparr>]]\<rparr>"

definition nodePodPlan :: RemediationPlan where
  "nodePodPlan = GeneratePlan ''abcd1234'' 17 nodePodIssue"

definition podPlan :: RemediationPlan where
  "podPlan = GeneratePlan ''abcd1234'' 17 podIssue"

text \<open>
  Three environments: one where remediation fails and nothing is cancelled, one where
  everything succeeds, and one whose context is cancelled from the start (every call that
  takes the context fails, every select receives from the context).
\<close>

definition failingEnv :: Env where
  "failingEnv = \<lparr> detectByKind = (\<lambda>i namespace name kind. Inl ''not found''),
                   remediate = (\<lambda>i info issue. Some ''manual intervention required''),
                   checkHealth = (\<lambda>i layer. None),
                   ctxDone = (\<lambda>i. False),
                   timerFirst = (\<lambda>i. False),
                   ctxErr = [] \<rparr>"

definition succeedingEnv :: Env where
  "succeedingEnv = \<lparr> detectByKind = (\<lambda>i namespace name kind. Inl ''not found''),
                      remediate = (\<lambda>i info issue. None),
                      checkHealth = (\<lambda>i layer. None),
                      ctxDone = (\<lambda>i. False),
                      timerFirst = (\<lambda>i. False),
                      ctxErr = [] \<rparr>"

definition cancelledEnv :: Env where
  "cancelledEnv = \<lparr> detectByKind = (\<lambda>i namespace name kind. Inl ''context canceled''),
                     remediate = (\<lambda>i info issue. Some ''context canceled''),
                     checkHealth = (\<lambda>i layer. Some ''context canceled''),
                     ctxDone = (\<lambda>i. True),
                     timerFirst = (\<lambda>i. False),
                     ctxErr = ''context canceled'' \<rparr>"

text \<open>
  A hand-built plan whose only step is an infrastructure monitor with a wait of one
  nanosecond, and an environment whose context is cancelled from the start and in which
  every timer has fired when its select is decided and is the case chosen.
\<close>

definition briefMonitorPlan :: RemediationPlan where
  "briefMonitorPlan =
     AddStep (NewRemediationPlan 17 ''inc-10'' [LayerInfrastructure])
       \<lparr> step_Layer = LayerInfrastructure,
         step_Order = 1,
         step_Description = ''Monitor MCO rollout for node n1'',
         step_ActionType = ''monitor_mco'',
         step_Target = ''n1'',
         step_WaitTime = 1,
         step_Required = True,
         step_Metadata = [''node'' \<mapsto> ''n1''] \<rparr>"

definition racingEnv :: Env where
  "racingEnv = \<lparr> detectByKind = (\<lambda>i namespace name kind. Inl ''context canceled''),
                  remediate = (\<lambda>i info issue. Some ''context canceled''),
                  checkHealth = (\<lambda>i layer. Some ''context canceled''),
                  ctxDone = (\<lambda>i. True),
                  timerFirst = (\<lambda>i. True),
                  ctxErr = ''context canceled'' \<rparr>"

text \<open>
  A cluster with one Prometheus custom resource that already carries two annotations,
  and the reading of an annotation of that resource.
\<close>

definition prometheusCR :: CustomResourceInfo where
  "prometheusCR =
     \<lparr> cr_Kind = ''Prometheus'', cr_Name = ''k8s'',
       cr_APIVersion = ''monitoring.coreos.com/v1'',
       cr_Group = ''monitoring.coreos.com'', cr_Version = ''v1'',
       cr_Resource = ''prometheuss'' \<rparr>"

definition prometheusGVR :: GroupVersionResource where
  "prometheusGVR =
     \<lparr> gvr_Group = ''monitoring.coreos.com'', gvr_Version = ''v1'',
       gvr_Resource = ''prometheuss'' \<rparr>"

definition prometheusObject :: Unstructured where
  "prometheusObject =
     \<lparr> obj_annotations = [''owner'' \<mapsto> ''team-a'', ''remediation.aiops/trigger'' \<mapsto> ''1600000000''],
       obj_rest = ''spec: {replicas: 2}'' \<rparr>"

definition monitoringCluster :: Cluster where
  "monitoringCluster = [(prometheusGVR, ''monitoring'', ''k8s'') \<mapsto> prometheusObject]"

definition annotationsAfter :: "Cluster \<Rightarrow> string \<Rightarrow> string option" where
  "annotationsAfter cluster key =
     (case cluster (prometheusGVR, ''monitoring'', ''k8s'') of
        None \<Rightarrow> None
      | Some obj \<Rightarrow> obj_annotations obj key)"

section \<open>Layer detection: affected layers and root cause\<close>

lemma AffectedLayers_AddAffectedLayer:
  "AffectedLayers (AddAffectedLayer li l) =
     (if l \<in> set (AffectedLayers li) then AffectedLayers li else AffectedLayers li @ [l])"
  by (auto simp: AddAffectedLayer_def list_ex_iff)

lemma RootCauseLayer_AddAffectedLayer [simp]:
  "RootCauseLayer (AddAffectedLayer li l) = RootCauseLayer li"
  by (simp add: AddAffectedLayer_def)

lemma LayerConfidence_AddAffectedLayer [simp]:
  "LayerConfidence (AddAffectedLayer li l) = LayerConfidence li"
  by (simp add: AddAffectedLayer_def)

lemma distinct_AddAffectedLayer:
  "distinct (AffectedLayers li) \<Longrightarrow> distinct (AffectedLayers (AddAffectedLayer li l))"
  by (simp add: AffectedLayers_AddAffectedLayer)

lemma mem_AddAffectedLayer:
  "set (AffectedLayers (AddAffectedLayer li l)) = insert l (set (AffectedLayers li))"
  by (auto simp: AffectedLayers_AddAffectedLayer)

lemma groupAndAddResources_layers [simp]:
  "AffectedLayers (groupAndAddResources li rs) = AffectedLayers li"
  "RootCauseLayer (groupAndAddResources li rs) = RootCauseLayer li"
  unfolding groupAndAddResources_def
  by (induction rs arbitrary: li) (simp_all add: AddImpactedResource_def)

lemma DetectLayers_AffectedLayers_distinct:
  "distinct (AffectedLayers (DetectLayers i d rs))"
  by (simp add: DetectLayers_def Let_def NewLayeredIssue_def distinct_AddAffectedLayer)

lemma layer_names_distinct [simp]:
  "LayerInfrastructure \<noteq> LayerPlatform" "LayerInfrastructure \<noteq> LayerApplication"
  "LayerPlatform \<noteq> LayerApplication" "LayerPlatform \<noteq> LayerInfrastructure"
  "LayerApplication \<noteq> LayerInfrastructure" "LayerApplication \<noteq> LayerPlatform"
  by (simp_all add: LayerInfrastructure_def LayerPlatform_def LayerApplication_def)

lemma determineRootCause_mem:
  "determineRootCause ls = (if LayerInfrastructure \<in> set ls then LayerInfrastructure
     else if LayerPlatform \<in> set ls then LayerPlatform else LayerApplication)"
  by (auto simp: determineRootCause_def list_ex_iff)

lemma DetectLayers_root_in_affected:
  "RootCauseLayer (DetectLayers i d rs) \<in> set (AffectedLayers (DetectLayers i d rs))"
  by (simp add: DetectLayers_def Let_def NewLayeredIssue_def determineRootCause_mem
      mem_AddAffectedLayer determineInitialLayer_def)

lemma fold_confidence_layers [simp]:
  "AffectedLayers (fold (\<lambda>layer li. li\<lparr>LayerConfidence := (LayerConfidence li)(layer \<mapsto> c)\<rparr>) ls li)
     = AffectedLayers li"
  "RootCauseLayer (fold (\<lambda>layer li. li\<lparr>LayerConfidence := (LayerConfidence li)(layer \<mapsto> c)\<rparr>) ls li)
     = RootCauseLayer li"
  by (induction ls arbitrary: li) simp_all

lemma distinct_mergeLayerPrediction:
  "distinct (AffectedLayers li) \<Longrightarrow> distinct (AffectedLayers (mergeLayerPrediction li l p))"
  by (simp add: mergeLayerPrediction_def Let_def distinct_AddAffectedLayer split: option.splits)

lemma distinct_enhanceWithMLPredictions:
  "distinct (AffectedLayers li) \<Longrightarrow>
   distinct (AffectedLayers (enhanceWithMLPredictions mld li p))"
  by (simp add: enhanceWithMLPredictions_def Let_def distinct_mergeLayerPrediction)

lemma DetectLayersWithML_AffectedLayers_distinct:
  "distinct (AffectedLayers (DetectLayersWithML mld ml i d rs))"
  by (simp add: DetectLayersWithML_def Let_def DetectLayers_AffectedLayers_distinct
      distinct_enhanceWithMLPredictions split: sum.splits)

text \<open>
  Claim C10. \<open>AddAffectedLayer\<close> is idempotent: adding a layer that is already among the
  affected layers returns the issue unchanged, and adding a layer twice is the same as
  adding it once. Consequently the affected layers of every issue produced by the keyword
  detector or by the machine-learning-enhanced detector contain no layer twice.
\<close>

theorem AddAffectedLayer_idempotent:
  "(layer \<in> set (AffectedLayers li) \<longrightarrow> AddAffectedLayer li layer = li)
   \<and> AddAffectedLayer (AddAffectedLayer li layer) layer = AddAffectedLayer li layer
   \<and> distinct (AffectedLayers (DetectLayers i d rs))
   \<and> distinct (AffectedLayers (DetectLayersWithML mld ml i d rs))"
proof -
  have a: "layer \<in> set (AffectedLayers li) \<longrightarrow> AddAffectedLayer li layer = li"
    by (simp add: AddAffectedLayer_def list_ex_iff)
  have b: "AddAffectedLayer (AddAffectedLayer li layer) layer = AddAffectedLayer li layer"
    by (simp add: AddAffectedLayer_def list_ex_iff)
  show ?thesis
    using a b DetectLayers_AffectedLayers_distinct DetectLayersWithML_AffectedLayers_distinct
    by blast
qed

theorem AddAffectedLayer_idempotent_witness:
  "LayerPlatform \<in> set (AffectedLayers (NewLayeredIssue ''i1'' ''sdn down'' LayerPlatform))
   \<and> AddAffectedLayer (NewLayeredIssue ''i1'' ''sdn down'' LayerPlatform) LayerPlatform
       = NewLayeredIssue ''i1'' ''sdn down'' LayerPlatform
   \<and> distinct (AffectedLayers (DetectLayersWithML (NewMLLayerDetector True) (Inr ml_silent)
        ''i1'' ''kubelet unhealthy'' []))"
  using AddAffectedLayer_idempotent [of LayerPlatform "NewLayeredIssue ''i1'' ''sdn down'' LayerPlatform"
     "''i1''" "''kubelet unhealthy''" "[]" "NewMLLayerDetector True" "Inr ml_silent"]
  by (simp add: NewLayeredIssue_def)

text \<open>
  Claim C1. The keyword detector always returns an issue whose root cause layer is one of
  its (non-empty) affected layers; this is \<open>DetectLayers_root_in_affected\<close> above. The
  machine-learning-enhanced detector does not: when the overall confidence of the prediction reaches the threshold it overwrites
  the root cause with the suggested layer without adding that layer to the affected layers.
  For the description "kubelet unhealthy", no resources, and a service reply of confidence 0.9
  that reports no pattern, the keyword pass finds the infrastructure layer only, the
  suggestion defaults to the application layer, and the returned issue has root cause
  application with affected layers [infrastructure].
\<close>

theorem ml_root_cause_outside_affected:
  "RootCauseLayer (DetectLayersWithML (NewMLLayerDetector True) (Inr ml_silent)
        ''i1'' ''kubelet unhealthy'' []) = LayerApplication
   \<and> AffectedLayers (DetectLayersWithML (NewMLLayerDetector True) (Inr ml_silent)
        ''i1'' ''kubelet unhealthy'' []) = [LayerInfrastructure]
   \<and> RootCauseLayer (DetectLayersWithML (NewMLLayerDetector True) (Inr ml_silent)
        ''i1'' ''kubelet unhealthy'' [])
      \<notin> set (AffectedLayers (DetectLayersWithML (NewMLLayerDetector True) (Inr ml_silent)
        ''i1'' ''kubelet unhealthy'' []))"
  by code_simp

text \<open>
  The same happens when the request carries a resource, here a Service, whose kind
  belongs to no layer's list.
\<close>

lemma suggested_root_cause_outside_affected_service:
  "RootCauseLayer (DetectLayersWithML (NewMLLayerDetector True) (Inr ml_silent)
        ''i1'' ''kubelet unhealthy''
        [\<lparr>Kind = ''Service'', Name = ''web'', Namespace = ''default'', Issue = ''NoEndpoints''\<rparr>])
     = LayerApplication
   \<and> AffectedLayers (DetectLayersWithML (NewMLLayerDetector True) (Inr ml_silent)
        ''i1'' ''kubelet unhealthy''
        [\<lparr>Kind = ''Service'', Name = ''web'', Namespace = ''default'', Issue = ''NoEndpoints''\<rparr>])
     = [LayerInfrastructure]"
  by code_simp

section \<open>Sorting the layers by priority\<close>

lemma length_swap_if_greater [simp]: "length (swap_if_greater i j ls) = length ls"
  by (simp add: swap_if_greater_def)

lemma mset_swap_if_greater:
  "i < length ls \<Longrightarrow> j < length ls \<Longrightarrow> mset (swap_if_greater i j ls) = mset ls"
  by (simp add: swap_if_greater_def mset_swap)

lemma take_swap_if_greater:
  "i \<le> j \<Longrightarrow> take i (swap_if_greater i j ls) = take i ls"
  by (simp add: swap_if_greater_def)

lemma inner_loop_inv:
  assumes "i < length ls" "j \<le> length ls"
  shows "length (fold (swap_if_greater i) [Suc i ..< j] ls) = length ls
       \<and> mset (fold (swap_if_greater i) [Suc i ..< j] ls) = mset ls
       \<and> take i (fold (swap_if_greater i) [Suc i ..< j] ls) = take i ls
       \<and> (\<forall>k. i < k \<and> k < j \<longrightarrow>
             Priority (fold (swap_if_greater i) [Suc i ..< j] ls ! i)
               \<le> Priority (fold (swap_if_greater i) [Suc i ..< j] ls ! k))"
  using assms(2)
proof (induction j)
  case 0
  then show ?case by simp
next
  case (Suc j)
  show ?case
  proof (cases "Suc i \<le> j")
    case False
    then show ?thesis by auto
  next
    case True
    define ls' where "ls' = fold (swap_if_greater i) [Suc i ..< j] ls"
    have IH: "length ls' = length ls" "mset ls' = mset ls" "take i ls' = take i ls"
      "\<forall>k. i < k \<and> k < j \<longrightarrow> Priority (ls' ! i) \<le> Priority (ls' ! k)"
      using Suc True unfolding ls'_def by auto
    have step: "fold (swap_if_greater i) [Suc i ..< Suc j] ls = swap_if_greater i j ls'"
      using True by (simp add: ls'_def)
    have ij: "i < j" "j < length ls'" "i < length ls'"
      using True Suc.prems IH(1) assms(1) by auto
    have a: "length (swap_if_greater i j ls') = length ls" using IH(1) by simp
    have b: "mset (swap_if_greater i j ls') = mset ls"
      using mset_swap_if_greater [OF ij(3) ij(2)] IH(2) by simp
    have c: "take i (swap_if_greater i j ls') = take i ls"
      using take_swap_if_greater [of i j ls'] ij(1) IH(3) by simp
    have d: "\<forall>k. i < k \<and> k < Suc j \<longrightarrow>
         Priority (swap_if_greater i j ls' ! i) \<le> Priority (swap_if_greater i j ls' ! k)"
    proof (intro allI impI)
      fix k assume k: "i < k \<and> k < Suc j"
      show "Priority (swap_if_greater i j ls' ! i) \<le> Priority (swap_if_greater i j ls' ! k)"
      proof (cases "Priority (ls' ! i) > Priority (ls' ! j)")
        case True
        then have sw: "swap_if_greater i j ls' = ls'[i := ls' ! j, j := ls' ! i]"
          by (simp add: swap_if_greater_def)
        show ?thesis
        proof (cases "k = j")
          case True
          then show ?thesis using sw ij \<open>Priority (ls' ! i) > Priority (ls' ! j)\<close> by simp
        next
          case False
          then have "k < j" using k by simp
          then have "Priority (ls' ! i) \<le> Priority (ls' ! k)" using IH(4) k by blast
          moreover have "k < length ls'" using \<open>k < j\<close> ij by simp
          ultimately show ?thesis
            using sw ij k False \<open>Priority (ls' ! i) > Priority (ls' ! j)\<close> by simp
        qed
      next
        case False
        then have sw: "swap_if_greater i j ls' = ls'" by (simp add: swap_if_greater_def)
        show ?thesis
        proof (cases "k = j")
          case True
          then show ?thesis using sw False by simp
        next
          case F2: False
          then have "k < j" using k by simp
          then show ?thesis using sw IH(4) k by simp
        qed
      qed
    qed
    show ?thesis unfolding step using a b c d by blast
  qed
qed

lemma sort_inner_props:
  assumes "i < length ls"
  shows "length (sort_inner i ls) = length ls"
    and "mset (sort_inner i ls) = mset ls"
    and "take i (sort_inner i ls) = take i ls"
    and "\<And>k. i < k \<Longrightarrow> k < length ls \<Longrightarrow>
           Priority (sort_inner i ls ! i) \<le> Priority (sort_inner i ls ! k)"
  using inner_loop_inv [OF assms, of "length ls"] by (simp_all add: sort_inner_def)

lemma set_drop_sort_inner:
  assumes "i < length ls"
  shows "set (drop i (sort_inner i ls)) = set (drop i ls)"
proof -
  have "mset (take i (sort_inner i ls)) + mset (drop i (sort_inner i ls))
        = mset (take i ls) + mset (drop i ls)"
    using sort_inner_props(2) [OF assms] by (metis append_take_drop_id mset_append)
  then have "mset (drop i (sort_inner i ls)) = mset (drop i ls)"
    using sort_inner_props(3) [OF assms] by simp
  then show ?thesis by (rule mset_eq_setD)
qed

lemma outer_loop_inv:
  assumes "n \<le> length ls"
  shows "length (fold sort_inner [0 ..< n] ls) = length ls
       \<and> mset (fold sort_inner [0 ..< n] ls) = mset ls
       \<and> sorted (map Priority (take n (fold sort_inner [0 ..< n] ls)))
       \<and> (\<forall>x \<in> set (take n (fold sort_inner [0 ..< n] ls)).
            \<forall>y \<in> set (drop n (fold sort_inner [0 ..< n] ls)). Priority x \<le> Priority y)"
  using assms
proof (induction n)
  case 0
  then show ?case by simp
next
  case (Suc n)
  define ls' where "ls' = fold sort_inner [0 ..< n] ls"
  have IH: "length ls' = length ls" "mset ls' = mset ls"
    "sorted (map Priority (take n ls'))"
    "\<forall>x \<in> set (take n ls'). \<forall>y \<in> set (drop n ls'). Priority x \<le> Priority y"
    using Suc unfolding ls'_def by auto
  have n: "n < length ls'" using Suc.prems IH(1) by simp
  define ls2 where "ls2 = sort_inner n ls'"
  have step: "fold sort_inner [0 ..< Suc n] ls = ls2" by (simp add: ls'_def ls2_def)
  have p: "length ls2 = length ls'" "mset ls2 = mset ls'" "take n ls2 = take n ls'"
    "\<And>k. n < k \<Longrightarrow> k < length ls' \<Longrightarrow> Priority (ls2 ! n) \<le> Priority (ls2 ! k)"
    "set (drop n ls2) = set (drop n ls')"
    unfolding ls2_def using sort_inner_props [OF n] set_drop_sort_inner [OF n] by auto
  have tk: "take (Suc n) ls2 = take n ls' @ [ls2 ! n]"
    using n p(1) p(3) by (simp add: take_Suc_conv_app_nth)
  have mem: "ls2 ! n \<in> set (drop n ls')"
    using p(5) n p(1) by (metis Cons_nth_drop_Suc list.set_intros(1))
  have s: "sorted (map Priority (take (Suc n) ls2))"
    unfolding tk using IH(3) IH(4) mem by (auto simp: sorted_append)
  have sub: "set (drop (Suc n) ls2) \<subseteq> set (drop n ls')"
    using p(5) by (metis set_drop_subset_set_drop Suc_n_not_le_n nat_le_linear)
  have q: "\<forall>x \<in> set (take (Suc n) ls2). \<forall>y \<in> set (drop (Suc n) ls2). Priority x \<le> Priority y"
  proof (intro ballI)
    fix x y assume x: "x \<in> set (take (Suc n) ls2)" and y: "y \<in> set (drop (Suc n) ls2)"
    from x have "x \<in> set (take n ls') \<or> x = ls2 ! n" unfolding tk by auto
    then show "Priority x \<le> Priority y"
    proof
      assume "x \<in> set (take n ls')"
      then show ?thesis using IH(4) sub y by blast
    next
      assume xe: "x = ls2 ! n"
      from y obtain k where k: "k < length (drop (Suc n) ls2)" "y = drop (Suc n) ls2 ! k"
        by (metis in_set_conv_nth)
      then have "y = ls2 ! (Suc n + k)" "Suc n + k < length ls'" using p(1) by auto
      then show ?thesis using p(4) [of "Suc n + k"] xe by simp
    qed
  qed
  show ?case unfolding step using p(1) p(2) IH(1) IH(2) s q by simp
qed

lemma GetLayersByPriority_sorted: "sorted (map Priority (GetLayersByPriority li))"
proof -
  define out where "out = fold sort_inner [0 ..< length (AffectedLayers li)] (AffectedLayers li)"
  have "length out = length (AffectedLayers li)"
    and "sorted (map Priority (take (length (AffectedLayers li)) out))"
    using outer_loop_inv [of "length (AffectedLayers li)" "AffectedLayers li"]
    unfolding out_def by blast+
  then show ?thesis by (simp add: GetLayersByPriority_def out_def)
qed

lemma GetLayersByPriority_mset: "mset (GetLayersByPriority li) = mset (AffectedLayers li)"
  using outer_loop_inv [of "length (AffectedLayers li)" "AffectedLayers li"]
  unfolding GetLayersByPriority_def by blast

lemma GetLayersByPriority_set: "set (GetLayersByPriority li) = set (AffectedLayers li)"
  using GetLayersByPriority_mset by (rule mset_eq_setD)

section \<open>Plan generation\<close>

lemma numbered_empty: "numbered k ([], k)"
  by (simp add: numbered_def)

lemma numbered_appendStep:
  "numbered k acc \<Longrightarrow> (\<And>n. step_Order (mk n) = n) \<Longrightarrow> numbered k (appendStep acc mk)"
  by (auto simp: numbered_def appendStep_def nth_append less_Suc_eq)

lemma numbered_infrastructureStep:
  "numbered k acc \<Longrightarrow> numbered k (infrastructureStep r acc)"
  by (simp add: infrastructureStep_def numbered_appendStep)

lemma numbered_platformStep:
  "numbered k acc \<Longrightarrow> numbered k (platformStep r acc)"
  by (simp add: platformStep_def Let_def numbered_appendStep)

lemma numbered_applicationStep:
  "numbered k acc \<Longrightarrow> numbered k (applicationStep r acc)"
  by (simp add: applicationStep_def numbered_appendStep)

lemma numbered_fold:
  "(\<And>r acc. numbered k acc \<Longrightarrow> numbered k (g r acc)) \<Longrightarrow> numbered k acc
   \<Longrightarrow> numbered k (fold g rs acc)"
  by (induction rs arbitrary: acc) simp_all

lemma numbered_generateInfrastructureSteps:
  "numbered n (generateInfrastructureSteps rs n)"
  unfolding generateInfrastructureSteps_def
  by (rule numbered_fold) (simp_all add: numbered_infrastructureStep numbered_empty)

lemma numbered_generatePlatformSteps:
  "numbered n (generatePlatformSteps rs n)"
  unfolding generatePlatformSteps_def
  by (rule numbered_fold) (simp_all add: numbered_platformStep numbered_empty)

lemma numbered_generateApplicationSteps:
  "numbered n (generateApplicationSteps rs n)"
  unfolding generateApplicationSteps_def
  by (rule numbered_fold) (simp_all add: numbered_applicationStep numbered_empty)

lemma numbered_generateStepsForLayer:
  "numbered n (generateStepsForLayer layer rs n)"
  by (simp add: generateStepsForLayer_def numbered_generateInfrastructureSteps
      numbered_generatePlatformSteps numbered_generateApplicationSteps numbered_empty)

lemma numbered_orders:
  assumes "numbered k (ss, n)" "s \<in> set ss"
  shows "k \<le> step_Order s"
proof -
  obtain i where "i < length ss" "s = ss ! i"
    using assms(2) by (metis in_set_conv_nth)
  then show ?thesis using assms(1) by (simp add: numbered_def)
qed

lemma numbered_append:
  assumes "numbered k (ss, n)" "numbered n (ts, m)"
  shows "numbered k (ss @ ts, m)"
proof -
  have n: "n = k + int (length ss)" and m: "m = n + int (length ts)"
    and a: "\<And>i. i < length ss \<Longrightarrow> step_Order (ss ! i) = k + int i"
    and b: "\<And>i. i < length ts \<Longrightarrow> step_Order (ts ! i) = n + int i"
    using assms by (simp_all add: numbered_def)
  have "step_Order ((ss @ ts) ! i) = k + int i" if "i < length (ss @ ts)" for i
  proof (cases "i < length ss")
    case True
    then show ?thesis using a by (simp add: nth_append)
  next
    case False
    then have "i - length ss < length ts" using that by simp
    then have "step_Order (ts ! (i - length ss)) = n + int (i - length ss)" by (rule b)
    then show ?thesis using False n by (simp add: nth_append)
  qed
  then show ?thesis using n m by (simp add: numbered_def)
qed

lemma fold_AddStep:
  "(\<And>s. s \<in> set ss \<Longrightarrow> step_Order s \<noteq> 0) \<Longrightarrow>
   fold (\<lambda>step plan. AddStep plan step) ss plan = plan\<lparr>Steps := Steps plan @ ss\<rparr>"
  by (induction ss arbitrary: plan) (simp_all add: AddStep_def)

lemma planLayer_numbered:
  assumes "numbered 1 (Steps (fst st), snd st)"
  shows "numbered 1 (Steps (fst (planLayer issue layer st)), snd (planLayer issue layer st))"
    and "Steps (fst (planLayer issue layer st))
         = Steps (fst st) @ fst (generateStepsForLayer layer (GetResourcesForLayer issue layer) (snd st))"
    and "Checkpoints (fst (planLayer issue layer st)) = Checkpoints (fst st)"
    and "RollbackSteps (fst (planLayer issue layer st)) = RollbackSteps (fst st)"
proof -
  obtain ls n' where g: "generateStepsForLayer layer (GetResourcesForLayer issue layer) (snd st) = (ls, n')"
    by (cases "generateStepsForLayer layer (GetResourcesForLayer issue layer) (snd st)")
  have nb: "numbered (snd st) (ls, n')"
    using numbered_generateStepsForLayer [of "snd st" layer "GetResourcesForLayer issue layer"] g
    by simp
  have one: "1 \<le> snd st" using assms by (simp add: numbered_def)
  have nz: "step_Order s \<noteq> 0" if "s \<in> set ls" for s
    using numbered_orders [OF nb that] one by simp
  have pl: "planLayer issue layer st = ((fst st)\<lparr>Steps := Steps (fst st) @ ls\<rparr>, n')"
    using g fold_AddStep [OF nz] by (simp add: planLayer_def Let_def)
  show "numbered 1 (Steps (fst (planLayer issue layer st)), snd (planLayer issue layer st))"
    using pl numbered_append [OF _ nb] assms by simp
  show "Steps (fst (planLayer issue layer st))
         = Steps (fst st) @ fst (generateStepsForLayer layer (GetResourcesForLayer issue layer) (snd st))"
    using pl g by simp
  show "Checkpoints (fst (planLayer issue layer st)) = Checkpoints (fst st)"
    using pl by simp
  show "RollbackSteps (fst (planLayer issue layer st)) = RollbackSteps (fst st)"
    using pl by simp
qed

lemma fold_planLayer:
  "numbered 1 (Steps (fst st), snd st) \<Longrightarrow>
   numbered 1 (Steps (fst (fold (planLayer issue) layers st)),
               snd (fold (planLayer issue) layers st))
   \<and> Steps (fst (fold (planLayer issue) layers st))
       = Steps (fst st) @ stepsFrom issue layers (snd st)
   \<and> Checkpoints (fst (fold (planLayer issue) layers st)) = Checkpoints (fst st)
   \<and> RollbackSteps (fst (fold (planLayer issue) layers st)) = RollbackSteps (fst st)"
proof (induction layers arbitrary: st)
  case Nil
  then show ?case by simp
next
  case (Cons l layers)
  note pl = planLayer_numbered [OF Cons.prems, of issue l]
  have pl5: "snd (planLayer issue l st)
      = snd (generateStepsForLayer l (GetResourcesForLayer issue l) (snd st))"
    by (simp add: planLayer_def Let_def split: prod.splits)
  note ih = Cons.IH [OF pl(1)]
  have i1: "numbered 1 (Steps (fst (fold (planLayer issue) layers (planLayer issue l st))),
               snd (fold (planLayer issue) layers (planLayer issue l st)))"
    and i2: "Steps (fst (fold (planLayer issue) layers (planLayer issue l st)))
       = Steps (fst (planLayer issue l st)) @ stepsFrom issue layers (snd (planLayer issue l st))"
    and i3: "Checkpoints (fst (fold (planLayer issue) layers (planLayer issue l st)))
       = Checkpoints (fst (planLayer issue l st))"
    and i4: "RollbackSteps (fst (fold (planLayer issue) layers (planLayer issue l st)))
       = RollbackSteps (fst (planLayer issue l st))"
    using ih by blast+
  have a: "numbered 1 (Steps (fst (fold (planLayer issue) (l # layers) st)),
               snd (fold (planLayer issue) (l # layers) st))"
    using i1 by simp
  have b: "Steps (fst (fold (planLayer issue) (l # layers) st))
       = Steps (fst st) @ stepsFrom issue (l # layers) (snd st)"
    using i2 pl(2) pl5 by simp
  have c: "Checkpoints (fst (fold (planLayer issue) (l # layers) st)) = Checkpoints (fst st)"
    using i3 pl(3) by simp
  have d: "RollbackSteps (fst (fold (planLayer issue) (l # layers) st)) = RollbackSteps (fst st)"
    using i4 pl(4) by simp
  show ?case using a b c d by blast
qed

lemma fold_AddCheckpoint:
  "fold (\<lambda>checkpoint plan. AddCheckpoint plan checkpoint) cs plan
     = plan\<lparr>Checkpoints := Checkpoints plan @ cs\<rparr>"
  by (induction cs arbitrary: plan) (simp_all add: AddCheckpoint_def)

lemma fold_AddRollbackStep:
  "fold (\<lambda>step plan. AddRollbackStep plan step) ss plan
     = plan\<lparr>RollbackSteps := RollbackSteps plan @ ss\<rparr>"
  by (induction ss arbitrary: plan) (simp_all add: AddRollbackStep_def)

lemma GeneratePlan_fields:
  "Steps (GeneratePlan u now issue) = stepsFrom issue (GetLayersByPriority issue) 1"
  "Checkpoints (GeneratePlan u now issue)
     = generateCheckpoints (GetLayersByPriority issue)
         (stepsFrom issue (GetLayersByPriority issue) 1)"
  "RollbackSteps (GeneratePlan u now issue)
     = generateRollbackSteps (stepsFrom issue (GetLayersByPriority issue) 1)"
  "map step_Order (Steps (GeneratePlan u now issue))
     = map (\<lambda>i. 1 + int i) [0 ..< length (Steps (GeneratePlan u now issue))]"
proof -
  define plan0 where
    "plan0 = (NewRemediationPlan now (ID issue) (GetLayersByPriority issue))\<lparr>plan_ID := ''plan-'' @ u\<rparr>"
  have n0: "numbered 1 (Steps (fst (plan0, 1::int)), snd (plan0, 1::int))"
    by (simp add: plan0_def NewRemediationPlan_def numbered_def)
  note f = fold_planLayer [OF n0, of issue "GetLayersByPriority issue"]
  have e: "Steps plan0 = []" "Checkpoints plan0 = []" "RollbackSteps plan0 = []"
    by (simp_all add: plan0_def NewRemediationPlan_def)
  define plan1 where "plan1 = fst (fold (planLayer issue) (GetLayersByPriority issue) (plan0, 1))"
  have f1: "numbered 1 (Steps plan1,
      snd (fold (planLayer issue) (GetLayersByPriority issue) (plan0, 1)))"
    and f2: "Steps plan1 = Steps (fst (plan0, 1::int))
        @ stepsFrom issue (GetLayersByPriority issue) (snd (plan0, 1::int))"
    and f3: "Checkpoints plan1 = Checkpoints (fst (plan0, 1::int))"
    and f4: "RollbackSteps plan1 = RollbackSteps (fst (plan0, 1::int))"
    using f unfolding plan1_def by blast+
  have p1: "Steps plan1 = stepsFrom issue (GetLayersByPriority issue) 1"
    "Checkpoints plan1 = []" "RollbackSteps plan1 = []"
    using f2 f3 f4 e by simp_all
  have g: "GeneratePlan u now issue =
     fold (\<lambda>step plan. AddRollbackStep plan step)
       (generateRollbackSteps (Steps (fold (\<lambda>checkpoint plan. AddCheckpoint plan checkpoint)
          (generateCheckpoints (GetLayersByPriority issue) (Steps plan1)) plan1)))
       (fold (\<lambda>checkpoint plan. AddCheckpoint plan checkpoint)
          (generateCheckpoints (GetLayersByPriority issue) (Steps plan1)) plan1)"
    unfolding GeneratePlan_def Let_def plan1_def plan0_def ..
  show a: "Steps (GeneratePlan u now issue) = stepsFrom issue (GetLayersByPriority issue) 1"
    unfolding g by (simp add: fold_AddCheckpoint fold_AddRollbackStep p1)
  show "Checkpoints (GeneratePlan u now issue)
     = generateCheckpoints (GetLayersByPriority issue)
         (stepsFrom issue (GetLayersByPriority issue) 1)"
    unfolding g by (simp add: fold_AddCheckpoint fold_AddRollbackStep p1)
  show "RollbackSteps (GeneratePlan u now issue)
     = generateRollbackSteps (stepsFrom issue (GetLayersByPriority issue) 1)"
    unfolding g by (simp add: fold_AddCheckpoint fold_AddRollbackStep p1)
  have "numbered 1 (stepsFrom issue (GetLayersByPriority issue) 1,
      snd (fold (planLayer issue) (GetLayersByPriority issue) (plan0, 1)))"
    using f1 unfolding p1(1) .
  then show "map step_Order (Steps (GeneratePlan u now issue))
     = map (\<lambda>i. 1 + int i) [0 ..< length (Steps (GeneratePlan u now issue))]"
    unfolding a by (intro nth_equalityI) (simp_all add: numbered_def)
qed

lemma lastStepPerLayer_snoc:
  "lastStepPerLayer (steps @ [s]) = (lastStepPerLayer steps)(step_Layer s \<mapsto> step_Order s)"
  by (simp add: lastStepPerLayer_def)

lemma lastStepPerLayer_eq:
  "lastStepPerLayer steps l =
     (if filter (\<lambda>s. step_Layer s = l) steps = [] then None
      else Some (step_Order (last (filter (\<lambda>s. step_Layer s = l) steps))))"
proof (induction steps rule: rev_induct)
  case Nil
  then show ?case by (simp add: lastStepPerLayer_def)
next
  case (snoc s steps)
  then show ?case by (simp add: lastStepPerLayer_snoc)
qed

lemma generateCheckpoints_fold:
  "fold (\<lambda>layer checkpoints.
             case m layer of
               None \<Rightarrow> checkpoints
             | Some lastStep \<Rightarrow> checkpoints @ [mk layer lastStep]) layers acc
   = acc @ concat (map (\<lambda>layer. case m layer of None \<Rightarrow> [] | Some x \<Rightarrow> [mk layer x]) layers)"
  by (induction layers arbitrary: acc) (simp_all split: option.splits)

lemma generateCheckpoints_eq:
  "generateCheckpoints layers steps =
     concat (map (\<lambda>layer. case lastStepPerLayer steps layer of
                None \<Rightarrow> []
              | Some lastStep \<Rightarrow>
                 [\<lparr> cp_Layer = layer, cp_AfterStep = lastStep, cp_Checks = layerChecks layer,
                    cp_Timeout = 10 * Minute, cp_Required = True \<rparr>]) layers)"
  unfolding generateCheckpoints_def
  using generateCheckpoints_fold [where m = "lastStepPerLayer steps" and layers = layers
     and acc = "[]" and mk = "\<lambda>layer lastStep. \<lparr> cp_Layer = layer, cp_AfterStep = lastStep,
                    cp_Checks = layerChecks layer,
                    cp_Timeout = 10 * Minute, cp_Required = True \<rparr>"]
  by simp

lemma generateCheckpoints_layers:
  "map cp_Layer (generateCheckpoints layers steps)
     = filter (\<lambda>l. lastStepPerLayer steps l \<noteq> None) layers"
  unfolding generateCheckpoints_eq
  by (induction layers) (auto split: option.splits)

lemma generateCheckpoints_mem:
  "c \<in> set (generateCheckpoints layers steps) \<Longrightarrow>
   lastStepPerLayer steps (cp_Layer c) = Some (cp_AfterStep c)"
  unfolding generateCheckpoints_eq
  by (induction layers) (auto split: option.splits)

lemma generateCheckpoints_sorted:
  assumes "sorted (map Priority layers)"
  shows "sorted (map (\<lambda>c. Priority (cp_Layer c)) (generateCheckpoints layers steps))"
proof -
  have "map (\<lambda>c. Priority (cp_Layer c)) (generateCheckpoints layers steps)
        = map Priority (map cp_Layer (generateCheckpoints layers steps))"
    by (simp add: comp_def)
  also have "\<dots> = map Priority (filter (\<lambda>l. lastStepPerLayer steps l \<noteq> None) layers)"
    by (simp only: generateCheckpoints_layers)
  finally show ?thesis using assms by (simp only: sorted_filter)
qed

lemma generateRollbackSteps_mirror:
  "map (\<lambda>s. (step_ActionType s, step_Target s, step_WaitTime s, step_Required s))
       (generateRollbackSteps steps)
   = map (\<lambda>s. (''rollback_'' @ step_ActionType s, step_Target s, step_WaitTime s,
               step_Required s)) (rev steps)"
proof -
  have "rev steps = map (\<lambda>i. steps ! i) (rev [0 ..< length steps])"
    by (simp add: rev_map [symmetric] map_nth)
  then have "map (\<lambda>s. (''rollback_'' @ step_ActionType s, step_Target s, step_WaitTime s,
               step_Required s)) (rev steps)
     = map (\<lambda>i. (''rollback_'' @ step_ActionType (steps ! i), step_Target (steps ! i),
               step_WaitTime (steps ! i), step_Required (steps ! i))) (rev [0 ..< length steps])"
    by (simp add: comp_def)
  then show ?thesis
    by (simp add: generateRollbackSteps_def rollbackOf_def Let_def comp_def)
qed

text \<open>
  Claim C2. For every layered issue, the plan produced by \<open>GeneratePlan\<close> has step orders
  1, 2, \<dots>, N (N the number of steps); every checkpoint's \<open>after_step\<close> is the order of
  the last step of the checkpoint's layer, which exists, so it is the order of a step of
  the plan; the checkpoints come in layer-priority order; and the rollback steps are the
  steps in reverse, each with action type prefixed by "rollback_" and with the same
  target, wait time and required flag.
\<close>

theorem GeneratePlan_invariants:
  "map step_Order (Steps (GeneratePlan uuid8 now issue))
     = map int [1 ..< Suc (length (Steps (GeneratePlan uuid8 now issue)))]
   \<and> (\<forall>c \<in> set (Checkpoints (GeneratePlan uuid8 now issue)).
        filter (\<lambda>s. step_Layer s = cp_Layer c) (Steps (GeneratePlan uuid8 now issue)) \<noteq> []
        \<and> cp_AfterStep c
            = step_Order (last (filter (\<lambda>s. step_Layer s = cp_Layer c)
                (Steps (GeneratePlan uuid8 now issue))))
        \<and> cp_AfterStep c \<in> set (map step_Order (Steps (GeneratePlan uuid8 now issue))))
   \<and> sorted (map (\<lambda>c. Priority (cp_Layer c)) (Checkpoints (GeneratePlan uuid8 now issue)))
   \<and> map (\<lambda>s. (step_ActionType s, step_Target s, step_WaitTime s, step_Required s))
        (RollbackSteps (GeneratePlan uuid8 now issue))
      = map (\<lambda>s. (''rollback_'' @ step_ActionType s, step_Target s, step_WaitTime s,
                  step_Required s)) (rev (Steps (GeneratePlan uuid8 now issue)))"
proof -
  define plan where "plan = GeneratePlan uuid8 now issue"
  note gf = GeneratePlan_fields [of uuid8 now issue, folded plan_def]
  have o: "map step_Order (Steps plan) = map int [1 ..< Suc (length (Steps plan))]"
    unfolding gf(4) by (intro nth_equalityI) (simp_all del: upt_Suc add: nth_upt)
  have c: "filter (\<lambda>s. step_Layer s = cp_Layer c) (Steps plan) \<noteq> []
        \<and> cp_AfterStep c
            = step_Order (last (filter (\<lambda>s. step_Layer s = cp_Layer c) (Steps plan)))
        \<and> cp_AfterStep c \<in> set (map step_Order (Steps plan))"
    if "c \<in> set (Checkpoints plan)" for c
  proof -
    have "lastStepPerLayer (Steps plan) (cp_Layer c) = Some (cp_AfterStep c)"
      using that generateCheckpoints_mem unfolding gf(2) gf(1) by blast
    then have ne: "filter (\<lambda>s. step_Layer s = cp_Layer c) (Steps plan) \<noteq> []"
      and eq: "cp_AfterStep c
            = step_Order (last (filter (\<lambda>s. step_Layer s = cp_Layer c) (Steps plan)))"
      by (simp_all add: lastStepPerLayer_eq split: if_splits)
    have "last (filter (\<lambda>s. step_Layer s = cp_Layer c) (Steps plan)) \<in> set (Steps plan)"
      using ne by (metis filter_is_subset last_in_set subsetD)
    then show ?thesis using ne eq by simp
  qed
  have s: "sorted (map (\<lambda>c. Priority (cp_Layer c)) (Checkpoints plan))"
    unfolding gf(2) by (rule generateCheckpoints_sorted) (rule GetLayersByPriority_sorted)
  have r: "map (\<lambda>s. (step_ActionType s, step_Target s, step_WaitTime s, step_Required s))
        (RollbackSteps plan)
      = map (\<lambda>s. (''rollback_'' @ step_ActionType s, step_Target s, step_WaitTime s,
                  step_Required s)) (rev (Steps plan))"
    unfolding gf(3) gf(1) by (rule generateRollbackSteps_mirror)
  show ?thesis using o c s r unfolding plan_def by blast
qed

theorem GeneratePlan_invariants_witness:
  "Checkpoints (GeneratePlan ''abcd1234'' 17 nodePodIssue) \<noteq> []
   \<and> cp_AfterStep (hd (Checkpoints (GeneratePlan ''abcd1234'' 17 nodePodIssue)))
         \<in> set (map step_Order (Steps (GeneratePlan ''abcd1234'' 17 nodePodIssue)))
   \<and> sorted (map (\<lambda>c. Priority (cp_Layer c))
          (Checkpoints (GeneratePlan ''abcd1234'' 17 nodePodIssue)))"
proof -
  have ne: "Checkpoints (GeneratePlan ''abcd1234'' 17 nodePodIssue) \<noteq> []"
    by code_simp
  then have "hd (Checkpoints (GeneratePlan ''abcd1234'' 17 nodePodIssue))
      \<in> set (Checkpoints (GeneratePlan ''abcd1234'' 17 nodePodIssue))"
    by (rule hd_in_set)
  then show ?thesis
    using ne GeneratePlan_invariants [of "''abcd1234''" 17 nodePodIssue] by blast
qed

section \<open>Plan execution\<close>

lemma executeLoop_calls_prefix:
  "prefix calls (snd (snd (snd (executeLoop env i steps plan executed calls))))"
proof (induction steps arbitrary: i plan executed calls)
  case Nil
  then show ?case by simp
next
  case (Cons step rest)
  have p: "\<And>i plan executed cs. prefix calls
      (snd (snd (snd (executeLoop env i rest plan executed (calls @ cs)))))"
    using Cons.IH by (metis append_prefixD)
  show ?case
    using p p [where cs = "a @ b" for a b]
    by (auto simp: failAndRollback_def rollbackSteps_def Let_def
        split: prod.splits option.splits)
qed

lemma executeLoop_verifies_after_success:
  assumes "executeStep env i step = (None, cs)"
    and "\<not> (step_WaitTime step > 0 \<and> ctxDone env i \<and> \<not> timerFirst env i)"
    and "GetCheckpointAfterStep (AdvanceStep plan) (step_Order step) = Some checkpoint"
    and "cp_Layer checkpoint = LayerInfrastructure \<or> cp_Layer checkpoint = LayerPlatform
         \<or> cp_Layer checkpoint = LayerApplication"
  shows "prefix (calls @ cs @ [HealthCheckCall (cp_Layer checkpoint) (cp_Timeout checkpoint)])
           (snd (snd (snd (executeLoop env i (step # rest) plan executed calls))))"
proof -
  have v: "verifyCheckpoint env i checkpoint
      = (checkHealth env i (cp_Layer checkpoint),
         [HealthCheckCall (cp_Layer checkpoint) (cp_Timeout checkpoint)])"
    using assms(4) by (auto simp: verifyCheckpoint_def)
  show ?thesis
    using assms(1,2,3) v executeLoop_calls_prefix
    by (auto simp: failAndRollback_def rollbackSteps_def Let_def split: option.splits)
qed

text \<open>
  Claim C3. After a step that succeeds and whose wait is not ended by the context, the checkpoint
  anchored at that step is verified under its timeout (\<open>executeLoop_verifies_after_success\<close>
  above). After a step that fails and is not required, the loop moves straight on to the
  next step, so the checkpoint anchored at that step is never verified. The plan generated
  for a single crash-looping pod has one non-required application step (order 1) and one
  required application checkpoint after step 1; when the remediation of that step fails,
  execution ends with status "success" and no health check was made, whereas the same plan
  with a succeeding remediation makes the application health check with the ten-minute
  timeout.
\<close>

theorem nonrequired_failure_skips_checkpoint:
  "map (\<lambda>s. (step_Order s, step_Layer s, step_Required s)) (Steps podPlan)
     = [(1, LayerApplication, False)]
   \<and> map (\<lambda>c. (cp_Layer c, cp_AfterStep c, cp_Required c)) (Checkpoints podPlan)
     = [(LayerApplication, 1, True)]
   \<and> res_Status (fst (ExecutePlan failingEnv podPlan)) = ''success''
   \<and> healthChecks (snd (snd (snd (ExecutePlan failingEnv podPlan)))) = []
   \<and> healthChecks (snd (snd (snd (ExecutePlan succeedingEnv podPlan))))
     = [(LayerApplication, 10 * Minute)]"
  by code_simp

text \<open>
  Claim C4, as stated, fails: the context is only consulted in the select that follows a
  successful step with a positive wait time. With a context cancelled from the start, the
  single-pod plan still attempts the remediation of its application step, and since that
  non-required step fails, execution ends with status "success" and an empty reason. And
  where the select is reached, it may still receive from the timer: for a plan whose only
  step is an infrastructure monitor with a wait of one nanosecond, a run in which the
  timer has fired and is chosen ends with status "success" as well.
\<close>

theorem cancelled_context_counterexample:
  "ctxDone cancelledEnv 0
   \<and> res_Status (fst (ExecutePlan cancelledEnv podPlan)) = ''success''
   \<and> Reason (fst (ExecutePlan cancelledEnv podPlan)) = []
   \<and> length (filter isRemediateCall (snd (snd (snd (ExecutePlan cancelledEnv podPlan))))) = 1
   \<and> ctxDone racingEnv 0
   \<and> map (\<lambda>s. (step_Layer s, step_WaitTime s)) (Steps briefMonitorPlan)
       = [(LayerInfrastructure, 1)]
   \<and> res_Status (fst (ExecutePlan racingEnv briefMonitorPlan)) = ''success''"
  by code_simp

text \<open>
  Claim C4, amended. For every plan whose first step is an infrastructure or platform step
  (a passive monitor) with a positive wait time, execution under a context that is already
  cancelled, when the select of the wait after that step receives from the context (which
  it does unless the timer of the wait has fired too and is the case chosen), returns
  status "failed" with reason "context cancelled" after that one step, having called
  neither the detector, nor a remediator, nor the health checker.
\<close>

theorem ExecutePlan_cancelled_passive_first:
  assumes "Steps plan = step # rest"
    and "step_Layer step = LayerInfrastructure \<or> step_Layer step = LayerPlatform"
    and "step_WaitTime step > 0"
    and "ctxDone env 0"
    and "\<not> timerFirst env 0"
  shows "ExecutePlan env plan =
     (\<lparr> res_Status = ''failed'', Reason = ''context cancelled'',
        ExecutedSteps = 1, FailedStep = None \<rparr>,
      Some (''plan execution cancelled: '' @ ctxErr env),
      AdvanceStep (MarkExecuting plan), [])"
proof -
  have "executeStep env 0 step = (None, [])"
    using assms(2)
    by (auto simp: executeStep_def executeInfrastructureStep_def executePlatformStep_def)
  then show ?thesis
    using assms(1,3,4,5) by (simp add: ExecutePlan_def)
qed

theorem ExecutePlan_cancelled_passive_first_witness:
  "step_Layer (hd (Steps nodePodPlan)) = LayerInfrastructure
   \<and> step_WaitTime (hd (Steps nodePodPlan)) > 0
   \<and> ctxDone cancelledEnv 0
   \<and> \<not> timerFirst cancelledEnv 0
   \<and> res_Status (fst (ExecutePlan cancelledEnv nodePodPlan)) = ''failed''
   \<and> Reason (fst (ExecutePlan cancelledEnv nodePodPlan)) = ''context cancelled''
   \<and> snd (snd (snd (ExecutePlan cancelledEnv nodePodPlan))) = []"
proof -
  have ne: "Steps nodePodPlan \<noteq> []" by code_simp
  then have a: "Steps nodePodPlan = hd (Steps nodePodPlan) # tl (Steps nodePodPlan)" by simp
  have b: "step_Layer (hd (Steps nodePodPlan)) = LayerInfrastructure" by code_simp
  have c: "step_WaitTime (hd (Steps nodePodPlan)) > 0" by code_simp
  have d: "ctxDone cancelledEnv 0" by (simp add: cancelledEnv_def)
  have e: "\<not> timerFirst cancelledEnv 0" by (simp add: cancelledEnv_def)
  show ?thesis
    using ExecutePlan_cancelled_passive_first [OF a disjI1 [OF b] c d e] b c d e by simp
qed

section \<open>Deployment detection\<close>

lemma SetDetail_fields [simp]:
  "Method (SetDetail d k v) = Method d"
  "info_Confidence (SetDetail d k v) = info_Confidence d"
  by (simp_all add: SetDetail_def)

lemma setDetailIfPresent_fields [simp]:
  "Method (setDetailIfPresent d k v) = Method d"
  "info_Confidence (setDetailIfPresent d k v) = info_Confidence d"
  by (simp_all add: setDetailIfPresent_def split: option.splits)

lemma NewDeploymentInfo_fields [simp]:
  "Method (NewDeploymentInfo ns n k m c) = m"
  "info_Confidence (NewDeploymentInfo ns n k m c) = c"
  by (simp_all add: NewDeploymentInfo_def)

lemma manualInfo_fields [simp]:
  "Method (manualInfo labels ns n k) = DeploymentMethodManual"
  "info_Confidence (manualInfo labels ns n k) = ConfidenceManual"
  by (simp_all add: manualInfo_def Let_def)

lemma detectFromMetadata_cases:
  "(Method (detectFromMetadata a l ns n k), info_Confidence (detectFromMetadata a l ns n k))
     \<in> {(DeploymentMethodArgoCD, ConfidenceArgoCD), (DeploymentMethodHelm, ConfidenceHelm),
         (DeploymentMethodOperator, ConfidenceOperator), (DeploymentMethodManual, ConfidenceManual)}"
  by (simp add: detectFromMetadata_def Let_def split: option.splits)

text \<open>
  Claim C5, as stated, fails: when detection fails the orchestrator synthesises a
  deployment info with method \<open>unknown\<close> and confidence 0.5, which is none of the four
  canonical values. Executing the single-pod plan with a failing detector hands exactly
  that info to the strategy selector.
\<close>

theorem fallback_confidence_counterexample:
  "map (\<lambda>d. (Method d, info_Confidence d))
     (List.map_filter remediatedInfo (snd (snd (snd (ExecutePlan failingEnv podPlan)))))
     = [(DeploymentMethodUnknown, 0.5)]
   \<and> (0.5 :: real) \<notin> set [0.95, 0.90, 0.80, 0.60]"
  by code_simp

text \<open>
  Claim C5, amended. Every deployment info built by the detector from the metadata of a
  workload has a confidence in [0, 1] that is the canonical value of its method (0.95
  ArgoCD, 0.90 Helm, 0.80 operator, 0.60 manual); the info the orchestrator synthesises
  when detection fails has method \<open>unknown\<close> and confidence 0.5.
\<close>

theorem detectFromMetadata_canonical_confidence:
  "canonicalConfidence (Method (detectFromMetadata annotations labels namespace name kind))
     = Some (info_Confidence (detectFromMetadata annotations labels namespace name kind))
   \<and> 0 \<le> info_Confidence (detectFromMetadata annotations labels namespace name kind)
   \<and> info_Confidence (detectFromMetadata annotations labels namespace name kind) \<le> 1
   \<and> Method (fallbackDeploymentInfo namespace name kind) = DeploymentMethodUnknown
   \<and> info_Confidence (fallbackDeploymentInfo namespace name kind) = 0.5"
  using detectFromMetadata_cases [of annotations labels namespace name kind]
  by (auto simp: canonicalConfidence_def ConfidenceArgoCD_def ConfidenceHelm_def
      ConfidenceOperator_def ConfidenceManual_def fallbackDeploymentInfo_def)

lemma Contains_sublist: "Contains s sub \<longleftrightarrow> sublist sub s"
  by (induction s) (simp_all add: sublist_Cons_right)

lemma Contains_trans: "Contains s a \<Longrightarrow> Contains a b \<Longrightarrow> Contains s b"
  unfolding Contains_sublist by (rule sublist_order.order.trans)

lemma Contains_refl: "Contains s s"
  by (simp add: Contains_sublist)

lemma isOperatorManager_iff:
  "isOperatorManager managedBy \<longleftrightarrow> Contains (ToLower managedBy) ''operator''"
proof -
  have dot: "Contains ''.operator'' ''operator''" by code_simp
  have dash: "Contains ''-operator'' ''operator''" by code_simp
  have k: "\<And>x. x \<in> set [''prometheus-operator'', ''etcd-operator'', ''mysql-operator'',
            ''postgres-operator'', ''redis-operator'', ''kafka-operator'',
            ''elastic-operator'', ''mongodb-operator''] \<Longrightarrow> Contains x ''operator''"
    by auto
  show ?thesis
    unfolding isOperatorManager_def Let_def list_ex_iff
    using Contains_trans [OF _ dot] Contains_trans [OF _ dash] k
    by (auto simp del: Contains.simps)
qed

text \<open>
  Claim C9, as stated, fails: the list of well-known operators is matched by equality with
  the full names (prometheus-operator, \<dots>, mongodb-operator), not by prefix. The value
  "mysql-controller" starts with "mysql-" and does not contain "helm", yet the workload is
  classified as manual with confidence 0.60.
\<close>

theorem managed_by_prefix_counterexample:
  "prefix ''mysql-'' ''mysql-controller''
   \<and> \<not> Contains (ToLower ''mysql-controller'') ''helm''
   \<and> Method (detectFromMetadata Map.empty [ManagedByLabel \<mapsto> ''mysql-controller'']
             ''default'' ''db'' ''Deployment'') = DeploymentMethodManual
   \<and> info_Confidence (detectFromMetadata Map.empty [ManagedByLabel \<mapsto> ''mysql-controller'']
             ''default'' ''db'' ''Deployment'') = 0.60"
  by code_simp

text \<open>
  Claim C9, amended. For every workload on which no GitOps or Helm rule fires and whose
  label app.kubernetes.io/managed-by is present, non-empty and (in lower case) free of
  "helm": the detector classifies it as operator-managed with confidence 0.80 when the
  lower-cased value contains "operator" (as each of the eight well-known operator names
  does), and as manual with confidence 0.60 otherwise.
\<close>

theorem managed_by_operator_iff:
  assumes "annotations ArgoCDTrackingAnnotation = None
           \<or> annotations ArgoCDTrackingAnnotation = Some []"
    and "labels ArgoCDInstanceLabel = None \<or> labels ArgoCDInstanceLabel = Some []"
    and "annotations HelmReleaseNameAnnotation = None
         \<or> annotations HelmReleaseNameAnnotation = Some []"
    and "labels ManagedByLabel = Some v"
    and "v \<noteq> []"
    and "\<not> Contains (ToLower v) ''helm''"
  shows "(Contains (ToLower v) ''operator'' \<longrightarrow>
            Method (detectFromMetadata annotations labels namespace name kind)
              = DeploymentMethodOperator
            \<and> info_Confidence (detectFromMetadata annotations labels namespace name kind) = 0.80)
       \<and> (\<not> Contains (ToLower v) ''operator'' \<longrightarrow>
            Method (detectFromMetadata annotations labels namespace name kind)
              = DeploymentMethodManual
            \<and> info_Confidence (detectFromMetadata annotations labels namespace name kind) = 0.60)"
proof -
  have h: "v \<noteq> ''Helm''"
  proof
    assume "v = ''Helm''"
    then have "Contains (ToLower v) ''helm''" by (simp add: ToLower_def lower_char_def)
    then show False using assms(6) by simp
  qed
  have p: "presentNonEmpty annotations ArgoCDTrackingAnnotation = None"
    "presentNonEmpty labels ArgoCDInstanceLabel = None"
    "presentNonEmpty annotations HelmReleaseNameAnnotation = None"
    "presentNonEmpty labels ManagedByLabel = Some v"
    using assms(1-5) by (auto simp: presentNonEmpty_def)
  show ?thesis
    using h assms(6)
    by (simp add: detectFromMetadata_def p isOperatorManager_iff Let_def
        ConfidenceOperator_def ConfidenceManual_def)
qed

theorem managed_by_operator_iff_witness:
  "Method (detectFromMetadata Map.empty [ManagedByLabel \<mapsto> ''prometheus-operator'']
             ''default'' ''test-app'' ''Deployment'') = DeploymentMethodOperator
   \<and> info_Confidence (detectFromMetadata Map.empty [ManagedByLabel \<mapsto> ''prometheus-operator'']
             ''default'' ''test-app'' ''Deployment'') = 0.80
   \<and> Contains (ToLower ''prometheus-operator'') ''operator''
   \<and> \<not> Contains (ToLower ''prometheus-operator'') ''helm''"
proof -
  have a: "Map.empty ArgoCDTrackingAnnotation = None
           \<or> Map.empty ArgoCDTrackingAnnotation = Some []" by simp
  have b: "[ManagedByLabel \<mapsto> ''prometheus-operator''] ArgoCDInstanceLabel = None
         \<or> [ManagedByLabel \<mapsto> ''prometheus-operator''] ArgoCDInstanceLabel = Some []"
    by (simp add: ManagedByLabel_def ArgoCDInstanceLabel_def)
  have c: "Map.empty HelmReleaseNameAnnotation = None
         \<or> Map.empty HelmReleaseNameAnnotation = Some []" by simp
  have d: "[ManagedByLabel \<mapsto> ''prometheus-operator''] ManagedByLabel = Some ''prometheus-operator''"
    by simp
  have e: "''prometheus-operator'' \<noteq> []" by simp
  have f: "\<not> Contains (ToLower ''prometheus-operator'') ''helm''" by code_simp
  have g: "Contains (ToLower ''prometheus-operator'') ''operator''" by code_simp
  show ?thesis
    using managed_by_operator_iff [OF a b c d e f, of "''default''" "''test-app''" "''Deployment''"]
      f g by blast
qed

section \<open>Steps per resource\<close>

lemma fst_appendStep [simp]: "fst (appendStep acc mk) = fst acc @ [mk (snd acc)]"
  by (simp add: appendStep_def)

lemma length_infrastructureStep:
  "length (fst (infrastructureStep r acc))
     = length (fst acc) + (if plannerTable LayerInfrastructure r then 1 else 0)"
  by (simp add: infrastructureStep_def plannerTable_def)

lemma length_applicationStep:
  "length (fst (applicationStep r acc))
     = length (fst acc) + (if plannerTable LayerApplication r then 1 else 0)"
  by (simp add: applicationStep_def plannerTable_def)

lemma length_platformStep:
  "Kind r \<noteq> ''ClusterOperator'' \<Longrightarrow>
   length (fst (platformStep r acc))
     = length (fst acc) + (if plannerTable LayerPlatform r then 1 else 0)"
  by (simp add: platformStep_def plannerTable_def Let_def)

lemma length_fold_steps:
  assumes "\<And>r acc. r \<in> set rs \<Longrightarrow> length (fst (g r acc)) = length (fst acc) + (if P r then 1 else 0)"
  shows "length (fst (fold g rs acc)) = length (fst acc) + length (filter P rs)"
  using assms by (induction rs arbitrary: acc) simp_all

lemma length_generateStepsForLayer:
  assumes "layer = LayerPlatform \<Longrightarrow> \<forall>r \<in> set rs. Kind r \<noteq> ''ClusterOperator''"
  shows "length (fst (generateStepsForLayer layer rs n)) = length (filter (plannerTable layer) rs)"
proof -
  consider "layer = LayerInfrastructure" | "layer = LayerPlatform" | "layer = LayerApplication"
    | "layer \<noteq> LayerInfrastructure" "layer \<noteq> LayerPlatform" "layer \<noteq> LayerApplication"
    by blast
  then show ?thesis
  proof cases
    case 1
    then show ?thesis
      using length_fold_steps [of rs infrastructureStep "plannerTable LayerInfrastructure" "([], n)"]
      by (simp add: generateStepsForLayer_def generateInfrastructureSteps_def
          length_infrastructureStep)
  next
    case 2
    then have "\<And>r acc. r \<in> set rs \<Longrightarrow> length (fst (platformStep r acc))
        = length (fst acc) + (if plannerTable LayerPlatform r then 1 else 0)"
      using assms length_platformStep by blast
    then show ?thesis
      using 2 length_fold_steps [of rs platformStep "plannerTable LayerPlatform" "([], n)"]
      by (simp add: generateStepsForLayer_def generatePlatformSteps_def)
  next
    case 3
    then show ?thesis
      using length_fold_steps [of rs applicationStep "plannerTable LayerApplication" "([], n)"]
      by (simp add: generateStepsForLayer_def generateApplicationSteps_def
          length_applicationStep)
  next
    case 4
    then show ?thesis by (simp add: generateStepsForLayer_def plannerTable_def)
  qed
qed

lemma length_stepsFrom:
  assumes "\<forall>r \<in> set (GetResourcesForLayer issue LayerPlatform). Kind r \<noteq> ''ClusterOperator''"
  shows "length (stepsFrom issue layers n)
     = sum_list (map (\<lambda>l. length (filter (plannerTable l) (GetResourcesForLayer issue l))) layers)"
  using assms
  by (induction layers arbitrary: n) (simp_all add: length_generateStepsForLayer)

lemma sum_list_mset_cong:
  fixes f :: "'a \<Rightarrow> nat"
  assumes "mset xs = mset ys"
  shows "sum_list (map f xs) = sum_list (map f ys)"
proof -
  have "sum_list (map f xs) = sum_mset (image_mset f (mset xs))"
    by (metis mset_map sum_mset_sum_list)
  also have "\<dots> = sum_mset (image_mset f (mset ys))" using assms by simp
  also have "\<dots> = sum_list (map f ys)" by (metis mset_map sum_mset_sum_list)
  finally show ?thesis .
qed

lemma infrastructureStep_emits:
  "map (\<lambda>s. (step_Layer s, step_Target s)) (fst (infrastructureStep r acc))
     = map (\<lambda>s. (step_Layer s, step_Target s)) (fst acc)
       @ (if plannerTable LayerInfrastructure r
          then [(LayerInfrastructure, stepTarget LayerInfrastructure r)] else [])"
  by (simp add: infrastructureStep_def plannerTable_def stepTarget_def)

lemma applicationStep_emits:
  "map (\<lambda>s. (step_Layer s, step_Target s)) (fst (applicationStep r acc))
     = map (\<lambda>s. (step_Layer s, step_Target s)) (fst acc)
       @ (if plannerTable LayerApplication r
          then [(LayerApplication, stepTarget LayerApplication r)] else [])"
  by (simp add: applicationStep_def plannerTable_def stepTarget_def)

lemma platformStep_emits:
  "Kind r \<noteq> ''ClusterOperator'' \<Longrightarrow>
   map (\<lambda>s. (step_Layer s, step_Target s)) (fst (platformStep r acc))
     = map (\<lambda>s. (step_Layer s, step_Target s)) (fst acc)
       @ (if plannerTable LayerPlatform r
          then [(LayerPlatform, stepTarget LayerPlatform r)] else [])"
  by (simp add: platformStep_def plannerTable_def stepTarget_def Let_def)

lemma fold_emits:
  assumes "\<And>r acc. r \<in> set rs \<Longrightarrow>
      map (\<lambda>s. (step_Layer s, step_Target s)) (fst (g r acc))
        = map (\<lambda>s. (step_Layer s, step_Target s)) (fst acc)
          @ (if P r then [(l, stepTarget l r)] else [])"
  shows "map (\<lambda>s. (step_Layer s, step_Target s)) (fst (fold g rs acc))
     = map (\<lambda>s. (step_Layer s, step_Target s)) (fst acc)
       @ map (\<lambda>r. (l, stepTarget l r)) (filter P rs)"
  using assms by (induction rs arbitrary: acc) simp_all

lemma generateStepsForLayer_emits:
  assumes "layer = LayerPlatform \<Longrightarrow> \<forall>r \<in> set rs. Kind r \<noteq> ''ClusterOperator''"
  shows "map (\<lambda>s. (step_Layer s, step_Target s)) (fst (generateStepsForLayer layer rs n))
     = map (\<lambda>r. (layer, stepTarget layer r)) (filter (plannerTable layer) rs)"
proof -
  consider "layer = LayerInfrastructure" | "layer = LayerPlatform" | "layer = LayerApplication"
    | "layer \<noteq> LayerInfrastructure" "layer \<noteq> LayerPlatform" "layer \<noteq> LayerApplication"
    by blast
  then show ?thesis
  proof cases
    case 1
    then show ?thesis
      using fold_emits [of rs infrastructureStep "plannerTable LayerInfrastructure"
          LayerInfrastructure "([], n)"]
      by (simp add: generateStepsForLayer_def generateInfrastructureSteps_def
          infrastructureStep_emits)
  next
    case 2
    then have "\<And>r acc. r \<in> set rs \<Longrightarrow>
      map (\<lambda>s. (step_Layer s, step_Target s)) (fst (platformStep r acc))
        = map (\<lambda>s. (step_Layer s, step_Target s)) (fst acc)
          @ (if plannerTable LayerPlatform r
             then [(LayerPlatform, stepTarget LayerPlatform r)] else [])"
      using assms platformStep_emits by blast
    then show ?thesis
      using 2 fold_emits [of rs platformStep "plannerTable LayerPlatform" LayerPlatform "([], n)"]
      by (simp add: generateStepsForLayer_def generatePlatformSteps_def)
  next
    case 3
    then show ?thesis
      using fold_emits [of rs applicationStep "plannerTable LayerApplication"
          LayerApplication "([], n)"]
      by (simp add: generateStepsForLayer_def generateApplicationSteps_def
          applicationStep_emits)
  next
    case 4
    then show ?thesis by (simp add: generateStepsForLayer_def plannerTable_def)
  qed
qed

lemma stepsFrom_emits:
  assumes "\<forall>r \<in> set (GetResourcesForLayer issue LayerPlatform). Kind r \<noteq> ''ClusterOperator''"
  shows "map (\<lambda>s. (step_Layer s, step_Target s)) (stepsFrom issue layers n)
     = concat (map (\<lambda>l. map (\<lambda>r. (l, stepTarget l r))
                 (filter (plannerTable l) (GetResourcesForLayer issue l))) layers)"
  using assms
  by (induction layers arbitrary: n) (simp_all add: generateStepsForLayer_emits)

lemma filter_layer_concat:
  assumes "distinct layers"
  shows "filter (\<lambda>p. fst p = l0) (concat (map (\<lambda>l. map (\<lambda>r. (l, h l r)) (xs l)) layers))
     = (if l0 \<in> set layers then map (\<lambda>r. (l0, h l0 r)) (xs l0) else [])"
  using assms
proof (induction layers)
  case Nil
  then show ?case by simp
next
  case (Cons l layers)
  have a: "filter (\<lambda>p. fst p = l0) (map (\<lambda>r. (l, h l r)) (xs l))
      = (if l = l0 then map (\<lambda>r. (l, h l r)) (xs l) else [])"
    by (simp add: filter_map comp_def)
  show ?case using Cons a by auto
qed

lemma filter_layer_targets:
  "map step_Target (filter (\<lambda>s. step_Layer s = l0) steps)
     = map snd (filter (\<lambda>p. fst p = l0) (map (\<lambda>s. (step_Layer s, step_Target s)) steps))"
  by (induction steps) simp_all

text \<open>
  Claim C6, as stated, fails. An application-layer resource whose kind has no row in the
  planner's table yields no step: the issue detected for a single DaemonSet has the
  application layer affected and one impacted application resource, and its plan has no
  step. A ClusterOperator resource matches both platform rows and yields two steps. And an
  issue that lists a layer twice among its affected layers gets the steps of that layer
  twice: two steps for one Pod.
\<close>

theorem step_per_resource_counterexample:
  "AffectedLayers daemonSetIssue = [LayerApplication]
   \<and> map Kind (GetResourcesForLayer daemonSetIssue LayerApplication) = [''DaemonSet'']
   \<and> length (Steps (GeneratePlan ''abcd1234'' 17 daemonSetIssue)) = 0
   \<and> map Kind (GetResourcesForLayer clusterOperatorIssue LayerPlatform) = [''ClusterOperator'']
   \<and> map step_ActionType (Steps (GeneratePlan ''abcd1234'' 17 clusterOperatorIssue))
       = [''trigger_operator_reconciliation'', ''monitor_clusteroperator'']
   \<and> AffectedLayers doubledLayerIssue = [LayerApplication, LayerApplication]
   \<and> map Kind (GetResourcesForLayer doubledLayerIssue LayerApplication) = [''Pod'']
   \<and> map step_Target (Steps (GeneratePlan ''abcd1234'' 17 doubledLayerIssue))
       = [''default/p1'', ''default/p1'']"
  by code_simp

text \<open>
  Claim C6, amended. For every layered issue whose affected layers contain no layer twice
  (as for every issue a detector produces) and whose platform resources contain no
  ClusterOperator: the steps of the plan are, layer by layer in priority order and resource
  by resource in the order of the issue, exactly one step for each impacted resource whose
  kind is in the planner's table for its layer, targeting that resource. So for every
  layer, the steps of that layer are one per such resource of the layer if the layer is
  affected, and none otherwise; no step exists for a resource of another kind; and the
  number of steps is the number of such resources over the affected layers.
\<close>

theorem GeneratePlan_step_per_resource:
  assumes "distinct (AffectedLayers issue)"
    and "\<forall>r \<in> set (GetResourcesForLayer issue LayerPlatform). Kind r \<noteq> ''ClusterOperator''"
  shows "map (\<lambda>s. (step_Layer s, step_Target s)) (Steps (GeneratePlan uuid8 now issue))
           = concat (map (\<lambda>l. map (\<lambda>r. (l, stepTarget l r))
                       (filter (plannerTable l) (GetResourcesForLayer issue l)))
               (GetLayersByPriority issue))
       \<and> map step_Target
             (filter (\<lambda>s. step_Layer s = layer) (Steps (GeneratePlan uuid8 now issue)))
           = (if layer \<in> set (AffectedLayers issue)
              then map (stepTarget layer)
                     (filter (plannerTable layer) (GetResourcesForLayer issue layer))
              else [])
       \<and> length (Steps (GeneratePlan uuid8 now issue))
           = sum_list (map (\<lambda>l. length (filter (plannerTable l) (GetResourcesForLayer issue l)))
               (AffectedLayers issue))"
proof -
  have a: "map (\<lambda>s. (step_Layer s, step_Target s)) (Steps (GeneratePlan uuid8 now issue))
           = concat (map (\<lambda>l. map (\<lambda>r. (l, stepTarget l r))
                       (filter (plannerTable l) (GetResourcesForLayer issue l)))
               (GetLayersByPriority issue))"
    by (simp only: GeneratePlan_fields(1) stepsFrom_emits [OF assms(2)])
  have d: "distinct (GetLayersByPriority issue)"
    using assms(1) GetLayersByPriority_mset [of issue] by (metis mset_eq_imp_distinct_iff)
  have "map step_Target
             (filter (\<lambda>s. step_Layer s = layer) (Steps (GeneratePlan uuid8 now issue)))
      = map snd (filter (\<lambda>p. fst p = layer)
          (concat (map (\<lambda>l. map (\<lambda>r. (l, stepTarget l r))
                       (filter (plannerTable l) (GetResourcesForLayer issue l)))
               (GetLayersByPriority issue))))"
    by (simp only: filter_layer_targets a)
  also have "\<dots> = map snd (if layer \<in> set (GetLayersByPriority issue)
        then map (\<lambda>r. (layer, stepTarget layer r))
               (filter (plannerTable layer) (GetResourcesForLayer issue layer))
        else [])"
    using filter_layer_concat [OF d, of layer stepTarget
        "\<lambda>l. filter (plannerTable l) (GetResourcesForLayer issue l)"]
    by simp
  also have "\<dots> = (if layer \<in> set (AffectedLayers issue)
              then map (stepTarget layer)
                     (filter (plannerTable layer) (GetResourcesForLayer issue layer))
              else [])"
    by (simp add: GetLayersByPriority_set comp_def)
  finally have b: "map step_Target
             (filter (\<lambda>s. step_Layer s = layer) (Steps (GeneratePlan uuid8 now issue)))
           = (if layer \<in> set (AffectedLayers issue)
              then map (stepTarget layer)
                     (filter (plannerTable layer) (GetResourcesForLayer issue layer))
              else [])" .
  have "length (Steps (GeneratePlan uuid8 now issue))
     = sum_list (map (\<lambda>l. length (filter (plannerTable l) (GetResourcesForLayer issue l)))
         (GetLayersByPriority issue))"
    by (simp only: GeneratePlan_fields(1) length_stepsFrom [OF assms(2)])
  also have "\<dots> = sum_list (map (\<lambda>l. length (filter (plannerTable l) (GetResourcesForLayer issue l)))
         (AffectedLayers issue))"
    by (rule sum_list_mset_cong) (rule GetLayersByPriority_mset)
  finally have c: "length (Steps (GeneratePlan uuid8 now issue))
           = sum_list (map (\<lambda>l. length (filter (plannerTable l) (GetResourcesForLayer issue l)))
               (AffectedLayers issue))" .
  show ?thesis using a b c by blast
qed

theorem GeneratePlan_step_per_resource_witness:
  "distinct (AffectedLayers operatorIssue)
   \<and> map Kind (GetResourcesForLayer operatorIssue LayerPlatform) = [''EtcdOperator'']
   \<and> map (\<lambda>s. (step_Layer s, step_Target s)) (Steps (GeneratePlan ''abcd1234'' 17 operatorIssue))
       = [(LayerPlatform, ''openshift-etcd/etcd''), (LayerApplication, ''default/p1'')]
   \<and> map step_Target (filter (\<lambda>s. step_Layer s = LayerPlatform)
         (Steps (GeneratePlan ''abcd1234'' 17 operatorIssue))) = [''openshift-etcd/etcd'']
   \<and> length (Steps (GeneratePlan ''abcd1234'' 17 operatorIssue)) = 2"
proof -
  have a: "distinct (AffectedLayers operatorIssue)" by code_simp
  have b: "\<forall>r \<in> set (GetResourcesForLayer operatorIssue LayerPlatform).
      Kind r \<noteq> ''ClusterOperator''"
    by code_simp
  have k: "map Kind (GetResourcesForLayer operatorIssue LayerPlatform) = [''EtcdOperator'']"
    by code_simp
  have c: "concat (map (\<lambda>l. map (\<lambda>r. (l, stepTarget l r))
                       (filter (plannerTable l) (GetResourcesForLayer operatorIssue l)))
               (GetLayersByPriority operatorIssue))
      = [(LayerPlatform, ''openshift-etcd/etcd''), (LayerApplication, ''default/p1'')]"
    by code_simp
  have d: "(if LayerPlatform \<in> set (AffectedLayers operatorIssue)
              then map (stepTarget LayerPlatform)
                     (filter (plannerTable LayerPlatform)
                        (GetResourcesForLayer operatorIssue LayerPlatform))
              else []) = [''openshift-etcd/etcd'']"
    by code_simp
  have e: "sum_list (map (\<lambda>l. length (filter (plannerTable l)
               (GetResourcesForLayer operatorIssue l))) (AffectedLayers operatorIssue)) = 2"
    by code_simp
  show ?thesis
    using GeneratePlan_step_per_resource [OF a b, of "''abcd1234''" 17 LayerPlatform] a k
    unfolding c d e by simp
qed

section \<open>Node steps\<close>

lemma infrastructureStep_mono: "set (fst acc) \<subseteq> set (fst (infrastructureStep r acc))"
  by (auto simp: infrastructureStep_def)

lemma fold_infrastructureStep_mono:
  "set (fst acc) \<subseteq> set (fst (fold infrastructureStep rs acc))"
proof (induction rs arbitrary: acc)
  case Nil
  then show ?case by simp
next
  case (Cons r rs)
  show ?case using Cons.IH [of "infrastructureStep r acc"] infrastructureStep_mono [of acc r]
    by auto
qed

lemma node_step:
  "Kind r = ''Node'' \<Longrightarrow>
   \<exists>s \<in> set (fst (infrastructureStep r acc)).
     step_Layer s = LayerInfrastructure \<and> step_ActionType s = ''monitor_mco''
     \<and> step_Target s = Name r \<and> step_WaitTime s = 5 * Minute \<and> step_Required s"
  by (simp add: infrastructureStep_def)

lemma fold_node_step:
  "r \<in> set rs \<Longrightarrow> Kind r = ''Node'' \<Longrightarrow>
   \<exists>s \<in> set (fst (fold infrastructureStep rs acc)).
     step_Layer s = LayerInfrastructure \<and> step_ActionType s = ''monitor_mco''
     \<and> step_Target s = Name r \<and> step_WaitTime s = 5 * Minute \<and> step_Required s"
proof (induction rs arbitrary: acc)
  case Nil
  then show ?case by simp
next
  case (Cons x rs)
  show ?case
  proof (cases "r = x")
    case True
    then obtain s where s: "s \<in> set (fst (infrastructureStep x acc))"
      "step_Layer s = LayerInfrastructure \<and> step_ActionType s = ''monitor_mco''
       \<and> step_Target s = Name r \<and> step_WaitTime s = 5 * Minute \<and> step_Required s"
      using node_step [of r acc] Cons.prems(2) by blast
    then have "s \<in> set (fst (fold infrastructureStep rs (infrastructureStep x acc)))"
      using fold_infrastructureStep_mono by blast
    then show ?thesis using s(2) by auto
  next
    case False
    then have "r \<in> set rs" using Cons.prems(1) by simp
    then show ?thesis using Cons.IH [of "infrastructureStep x acc"] Cons.prems(2) by simp
  qed
qed

lemma stepsFrom_contains:
  "l \<in> set layers \<Longrightarrow>
   \<exists>n'. set (fst (generateStepsForLayer l (GetResourcesForLayer issue l) n'))
          \<subseteq> set (stepsFrom issue layers n)"
proof (induction layers arbitrary: n)
  case Nil
  then show ?case by simp
next
  case (Cons x layers)
  show ?case
  proof (cases "l = x")
    case True
    then show ?thesis by (intro exI [of _ n]) simp
  next
    case False
    then have "l \<in> set layers" using Cons.prems by simp
    then obtain n' where "set (fst (generateStepsForLayer l (GetResourcesForLayer issue l) n'))
          \<subseteq> set (stepsFrom issue layers
               (snd (generateStepsForLayer x (GetResourcesForLayer issue x) n)))"
      using Cons.IH by blast
    then show ?thesis by (intro exI [of _ n']) auto
  qed
qed

lemma node_step_in_plan:
  assumes "LayerInfrastructure \<in> set (AffectedLayers issue)"
    and "r \<in> set (GetResourcesForLayer issue LayerInfrastructure)"
    and "Kind r = ''Node''"
  shows "\<exists>s \<in> set (Steps (GeneratePlan uuid8 now issue)).
           step_Layer s = LayerInfrastructure \<and> step_ActionType s = ''monitor_mco''
           \<and> step_Target s = Name r \<and> step_WaitTime s = 5 * Minute \<and> step_Required s"
proof -
  have "LayerInfrastructure \<in> set (GetLayersByPriority issue)"
    using assms(1) by (simp add: GetLayersByPriority_set)
  then obtain n' where sub:
    "set (fst (generateStepsForLayer LayerInfrastructure
            (GetResourcesForLayer issue LayerInfrastructure) n'))
       \<subseteq> set (stepsFrom issue (GetLayersByPriority issue) 1)"
    using stepsFrom_contains by blast
  obtain s where
    "s \<in> set (fst (fold infrastructureStep (GetResourcesForLayer issue LayerInfrastructure) ([], n')))"
    and p: "step_Layer s = LayerInfrastructure \<and> step_ActionType s = ''monitor_mco''
       \<and> step_Target s = Name r \<and> step_WaitTime s = 5 * Minute \<and> step_Required s"
    using fold_node_step [OF assms(2,3)] by blast
  then have "s \<in> set (stepsFrom issue (GetLayersByPriority issue) 1)"
    using sub by (auto simp: generateStepsForLayer_def generateInfrastructureSteps_def)
  then show ?thesis using p unfolding GeneratePlan_fields(1) by blast
qed

lemma GetResourcesForLayer_AddImpactedResource:
  "GetResourcesForLayer (AddImpactedResource li l r) l'
     = (if l' = l then GetResourcesForLayer li l @ [r] else GetResourcesForLayer li l')"
  by (simp add: GetResourcesForLayer_def AddImpactedResource_def)

lemma GetResourcesForLayer_groupAndAddResources:
  "GetResourcesForLayer (groupAndAddResources li rs) l
     = GetResourcesForLayer li l @ filter (\<lambda>r. resourceToLayer r = l) rs"
  unfolding groupAndAddResources_def
  by (induction rs arbitrary: li) (simp_all add: GetResourcesForLayer_AddImpactedResource)

lemma DetectLayers_node:
  assumes "r \<in> set resources" "Kind r = ''Node''"
  shows "LayerInfrastructure \<in> set (AffectedLayers (DetectLayers i d resources))"
    and "r \<in> set (GetResourcesForLayer (DetectLayers i d resources) LayerInfrastructure)"
proof -
  have h: "hasInfrastructureIssues d resources"
    using assms by (auto simp: hasInfrastructureIssues_def list_ex_iff)
  show "LayerInfrastructure \<in> set (AffectedLayers (DetectLayers i d resources))"
    using h by (simp add: DetectLayers_def Let_def mem_AddAffectedLayer)
  have "resourceToLayer r = LayerInfrastructure"
    using assms(2) by (simp add: resourceToLayer_def)
  then show "r \<in> set (GetResourcesForLayer (DetectLayers i d resources) LayerInfrastructure)"
    using assms(1)
    by (simp add: DetectLayers_def Let_def GetResourcesForLayer_groupAndAddResources)
qed

lemma DetectLayers_node_step:
  assumes "r \<in> set resources" "Kind r = ''Node''"
  shows "\<exists>s \<in> set (Steps (GeneratePlan uuid8 now (DetectLayers i d resources))).
           step_Layer s = LayerInfrastructure \<and> step_ActionType s = ''monitor_mco''
           \<and> step_Target s = Name r \<and> step_WaitTime s = 5 * Minute \<and> step_Required s"
  using node_step_in_plan [OF DetectLayers_node [OF assms] assms(2)] .

text \<open>
  Claim C7, as stated, fails: the step the planner emits for a Node has action type
  "monitor_mco" (the action type the orchestrator dispatches on), not
  "monitor_node_update"; the plan for a node under memory pressure with a crash-looping pod
  has the action types monitor_mco and restart_pod. Moreover steps are only generated for
  layers listed in the affected layers: an issue that carries a Node among its
  infrastructure resources but lists only the application layer as affected gets no step.
\<close>

theorem node_step_counterexample:
  "map Kind (GetResourcesForLayer nodePodIssue LayerInfrastructure) = [''Node'']
   \<and> map step_ActionType (Steps (GeneratePlan ''abcd1234'' 17 nodePodIssue))
       = [''monitor_mco'', ''restart_pod'']
   \<and> \<not> list_ex (\<lambda>s. step_ActionType s = ''monitor_node_update'')
          (Steps (GeneratePlan ''abcd1234'' 17 nodePodIssue))
   \<and> map Kind (GetResourcesForLayer orphanNodeIssue LayerInfrastructure) = [''Node'']
   \<and> AffectedLayers orphanNodeIssue = [LayerApplication]
   \<and> length (Steps (GeneratePlan ''abcd1234'' 17 orphanNodeIssue)) = 0"
  by code_simp

text \<open>
  Claim C7, amended. For every layered issue whose affected layers include infrastructure
  (as they do for every issue the keyword detector builds from resources that include a
  Node, see \<open>DetectLayers_node_step\<close>) and whose infrastructure resources include a Node,
  the plan contains, for each such Node, a required infrastructure step with action type
  "monitor_mco", the node's name as target and a wait time of five minutes.
\<close>

theorem node_step_monitor_mco:
  assumes "LayerInfrastructure \<in> set (AffectedLayers issue)"
    and "r \<in> set (GetResourcesForLayer issue LayerInfrastructure)"
    and "Kind r = ''Node''"
  shows "\<exists>s \<in> set (Steps (GeneratePlan uuid8 now issue)).
           step_Layer s = LayerInfrastructure \<and> step_ActionType s = ''monitor_mco''
           \<and> step_Target s = Name r \<and> step_WaitTime s = 5 * Minute \<and> step_Required s"
  using assms by (rule node_step_in_plan)

theorem node_step_monitor_mco_witness:
  "LayerInfrastructure \<in> set (AffectedLayers nodePodIssue)
   \<and> map Kind (GetResourcesForLayer nodePodIssue LayerInfrastructure) = [''Node'']
   \<and> (\<exists>s \<in> set (Steps (GeneratePlan ''abcd1234'' 17 nodePodIssue)).
           step_Layer s = LayerInfrastructure \<and> step_ActionType s = ''monitor_mco''
           \<and> step_Target s = ''n1'' \<and> step_WaitTime s = 5 * Minute \<and> step_Required s)"
proof -
  have a: "LayerInfrastructure \<in> set (AffectedLayers nodePodIssue)" by code_simp
  have b: "map Kind (GetResourcesForLayer nodePodIssue LayerInfrastructure) = [''Node'']"
    by code_simp
  have c: "\<lparr>Kind = ''Node'', Name = ''n1'', Namespace = [], Issue = ''MemoryPressure''\<rparr>
        \<in> set (GetResourcesForLayer nodePodIssue LayerInfrastructure)"
    by code_simp
  show ?thesis
    using node_step_monitor_mco [OF a c, of "''abcd1234''" 17] a b by simp
qed

section \<open>Triggering a reconciliation\<close>

text \<open>
  Claim C8, as stated, fails in the names of the annotations: the patch sets
  "remediation.aiops/trigger" and "remediation.aiops/trigger-by". After a successful
  trigger on a Prometheus resource the keys "remediation/trigger" and
  "remediation/trigger-by" are still absent.
\<close>

theorem trigger_annotation_keys_counterexample:
  "fst (triggerReconciliation monitoringCluster 1730000000 prometheusCR ''monitoring'') = None
   \<and> annotationsAfter
        (fst (snd (triggerReconciliation monitoringCluster 1730000000 prometheusCR ''monitoring'')))
        ''remediation/trigger'' = None
   \<and> annotationsAfter
        (fst (snd (triggerReconciliation monitoringCluster 1730000000 prometheusCR ''monitoring'')))
        ''remediation/trigger-by'' = None
   \<and> annotationsAfter
        (fst (snd (triggerReconciliation monitoringCluster 1730000000 prometheusCR ''monitoring'')))
        ''remediation.aiops/trigger'' = Some ''1730000000''"
proof -
  have f: "FormatInt 1730000000 = ''1730000000''"
    by (simp add: FormatInt_def)
  show ?thesis
    by (simp add: triggerReconciliation_def dynamicGet_def dynamicMergePatch_def Let_def
        monitoringCluster_def prometheusCR_def prometheusGVR_def prometheusObject_def
        annotationsAfter_def f)
qed

text \<open>
  Claim C8, amended. When the owning custom resource exists, the remediator first reads it
  and then applies one merge patch, after which the resource carries the annotations
  "remediation.aiops/trigger" = the Unix time in decimal and
  "remediation.aiops/trigger-by" = "coordination-engine", added or overwritten, with every
  other annotation, the rest of the object and every other object unchanged. When the
  resource does not exist, the read fails, no patch is sent, the cluster is unchanged and
  an error is returned.
\<close>

theorem triggerReconciliation_patch:
  "(cluster (\<lparr> gvr_Group = cr_Group cr, gvr_Version = cr_Version cr,
              gvr_Resource = cr_Resource cr \<rparr>, namespace, cr_Name cr) = Some obj
    \<longrightarrow> triggerReconciliation cluster now cr namespace =
         (None,
          cluster((\<lparr> gvr_Group = cr_Group cr, gvr_Version = cr_Version cr,
                     gvr_Resource = cr_Resource cr \<rparr>, namespace, cr_Name cr) \<mapsto>
            obj\<lparr>obj_annotations := (obj_annotations obj)
                  (''remediation.aiops/trigger'' \<mapsto> FormatInt now,
                   ''remediation.aiops/trigger-by'' \<mapsto> ''coordination-engine'')\<rparr>),
          [ApiGet \<lparr> gvr_Group = cr_Group cr, gvr_Version = cr_Version cr,
                    gvr_Resource = cr_Resource cr \<rparr> namespace (cr_Name cr),
           ApiMergePatch \<lparr> gvr_Group = cr_Group cr, gvr_Version = cr_Version cr,
                           gvr_Resource = cr_Resource cr \<rparr> namespace (cr_Name cr)
             [(''remediation.aiops/trigger'', FormatInt now),
              (''remediation.aiops/trigger-by'', ''coordination-engine'')]]))
   \<and> (cluster (\<lparr> gvr_Group = cr_Group cr, gvr_Version = cr_Version cr,
                 gvr_Resource = cr_Resource cr \<rparr>, namespace, cr_Name cr) = None
    \<longrightarrow> fst (triggerReconciliation cluster now cr namespace) \<noteq> None
        \<and> fst (snd (triggerReconciliation cluster now cr namespace)) = cluster
        \<and> snd (snd (triggerReconciliation cluster now cr namespace))
            = [ApiGet \<lparr> gvr_Group = cr_Group cr, gvr_Version = cr_Version cr,
                        gvr_Resource = cr_Resource cr \<rparr> namespace (cr_Name cr)])"
  by (simp add: triggerReconciliation_def dynamicGet_def dynamicMergePatch_def Let_def)

theorem triggerReconciliation_patch_witness:
  "monitoringCluster (prometheusGVR, ''monitoring'', ''k8s'') = Some prometheusObject
   \<and> fst (triggerReconciliation monitoringCluster 1730000000 prometheusCR ''monitoring'') = None
   \<and> annotationsAfter
        (fst (snd (triggerReconciliation monitoringCluster 1730000000 prometheusCR ''monitoring'')))
        ''remediation.aiops/trigger'' = Some ''1730000000''
   \<and> annotationsAfter
        (fst (snd (triggerReconciliation monitoringCluster 1730000000 prometheusCR ''monitoring'')))
        ''remediation.aiops/trigger-by'' = Some ''coordination-engine''
   \<and> annotationsAfter
        (fst (snd (triggerReconciliation monitoringCluster 1730000000 prometheusCR ''monitoring'')))
        ''owner'' = Some ''team-a''"
proof -
  have g: "\<lparr> gvr_Group = cr_Group prometheusCR, gvr_Version = cr_Version prometheusCR,
              gvr_Resource = cr_Resource prometheusCR \<rparr> = prometheusGVR"
    "cr_Name prometheusCR = ''k8s''"
    by (simp_all add: prometheusCR_def prometheusGVR_def)
  have a: "monitoringCluster (prometheusGVR, ''monitoring'', ''k8s'') = Some prometheusObject"
    by (simp add: monitoringCluster_def)
  have f: "FormatInt 1730000000 = ''1730000000''"
    by (simp add: FormatInt_def)
  show ?thesis
    using triggerReconciliation_patch [of monitoringCluster prometheusCR "''monitoring''"
        prometheusObject 1730000000] a
    unfolding g
    by (simp add: annotationsAfter_def f prometheusObject_def)
qed

end
